theory Spec2Isabelle
  imports Complex_Main "HOL-Library.Word"
begin

unbundle bit_operations_syntax

chapter \<open>Megaplace: the pixel indexer's HTTP boundary and the ledger contract\<close>

text \<open>
  The development embeds three sources of the repository:
  \<^item> \<^verbatim>\<open>backend/src/app.ts\<close>: the validation helpers and the request handlers of the
    HTTP boundary, and the older inline handlers kept beside \<^verbatim>\<open>backend/src/index.ts\<close>;
  \<^item> \<^verbatim>\<open>frontend/src/services/backendApi.ts\<close>: the decoder of the binary dump;
  \<^item> the Solidity contract \<^verbatim>\<open>Megaplace\<close>: \<^verbatim>\<open>placePixel\<close>, \<^verbatim>\<open>placePixelBatch\<close>,
    \<^verbatim>\<open>getRegion\<close>.
  The class \<^verbatim>\<open>EventListener\<close> (\<^verbatim>\<open>eventListener.ts\<close>) is imported by the backend but is not
  among the sources. A handler that calls one of its methods takes that method as an
  argument; where a property is about the missing class itself, the definition is
  written from the specification and says so.
\<close>

section \<open>JavaScript numbers\<close>

text \<open>
  A JavaScript number is NaN, an infinity or a finite value; the finite doubles are
  rationals. Arithmetic is exact here. A double holds every integer of magnitude up to
  \<open>2^53\<close>, and sums and products of such integers that stay in this range are computed
  without rounding; the properties below are stated for values in this range (canvas
  coordinates below \<open>2^20\<close>, dimensions up to 1000, offsets up to \<open>10^7\<close>).
\<close>

datatype number = NaN | PosInfinity | NegInfinity | Finite rat

definition isNaN :: "number \<Rightarrow> bool" where
  "isNaN n = (n = NaN)"

text \<open>\<^verbatim>\<open>Number.isInteger\<close>: finite and without a fractional part.\<close>

definition isInteger :: "number \<Rightarrow> bool" where
  "isInteger n = (case n of Finite r \<Rightarrow> r = of_int \<lfloor>r\<rfloor> | _ \<Rightarrow> False)"

text \<open>The relational operators; every comparison with NaN is false.\<close>

fun js_lt :: "number \<Rightarrow> number \<Rightarrow> bool" where
  "js_lt NaN _ = False"
| "js_lt _ NaN = False"
| "js_lt (Finite a) (Finite b) = (a < b)"
| "js_lt PosInfinity _ = False"
| "js_lt _ PosInfinity = True"
| "js_lt NegInfinity NegInfinity = False"
| "js_lt NegInfinity (Finite b) = True"
| "js_lt (Finite a) NegInfinity = False"

definition js_gt :: "number \<Rightarrow> number \<Rightarrow> bool" where
  "js_gt a b = js_lt b a"

definition js_le :: "number \<Rightarrow> number \<Rightarrow> bool" where
  "js_le a b = (a \<noteq> NaN \<and> b \<noteq> NaN \<and> \<not> js_lt b a)"

definition js_ge :: "number \<Rightarrow> number \<Rightarrow> bool" where
  "js_ge a b = js_le b a"

text \<open>Addition, as far as the pagination handler needs it: NaN is absorbing and opposite
  infinities give NaN.\<close>

fun js_add :: "number \<Rightarrow> number \<Rightarrow> number" where
  "js_add NaN _ = NaN"
| "js_add _ NaN = NaN"
| "js_add (Finite a) (Finite b) = Finite (a + b)"
| "js_add PosInfinity NegInfinity = NaN"
| "js_add NegInfinity PosInfinity = NaN"
| "js_add PosInfinity _ = PosInfinity"
| "js_add _ PosInfinity = PosInfinity"
| "js_add NegInfinity _ = NegInfinity"
| "js_add _ NegInfinity = NegInfinity"

subsection \<open>parseInt\<close>

text \<open>
  \<^verbatim>\<open>parseInt(string)\<close> without a radix: leading white space is dropped, then an optional
  sign, then an optional \<^verbatim>\<open>0x\<close>/\<^verbatim>\<open>0X\<close> that switches to radix 16; the longest prefix of
  digits of the radix is the value, and NaN results when that prefix is empty. The result
  is NaN (\<open>None\<close>) or an integer. Strings are lists of 8-bit characters here, so the
  white space beyond Latin-1 is not represented. The integer is the mathematical value of
  the digits; the number that JavaScript returns is the double nearest to it, the same
  value up to \<open>2^53\<close> and a rounded one (or an infinity) beyond. The handlers of app.ts
  compare the result with bounds far below \<open>2^53\<close> before they use it. The older handlers
  do not, and what is proved of them is stated for coordinates on the canvas.
\<close>

definition isWhiteSpace :: "char \<Rightarrow> bool" where
  "isWhiteSpace c = ((of_char c :: nat) \<in> {9, 10, 11, 12, 13, 32, 160})"

definition digitValue :: "char \<Rightarrow> nat option" where
  "digitValue c =
     (let n = (of_char c :: nat) in
      if 48 \<le> n \<and> n \<le> 57 then Some (n - 48)
      else if 97 \<le> n \<and> n \<le> 122 then Some (n - 87)
      else if 65 \<le> n \<and> n \<le> 90 then Some (n - 55)
      else None)"

definition isRadixDigit :: "nat \<Rightarrow> char \<Rightarrow> bool" where
  "isRadixDigit R c = (case digitValue c of Some d \<Rightarrow> d < R | None \<Rightarrow> False)"

definition digitsValue :: "nat \<Rightarrow> string \<Rightarrow> nat" where
  "digitsValue R Z = foldl (\<lambda>acc c. acc * R + (case digitValue c of Some d \<Rightarrow> d | None \<Rightarrow> 0)) 0 Z"

fun stripSign :: "string \<Rightarrow> int \<times> string" where
  "stripSign [] = (1, [])"
| "stripSign (c # cs) =
     (if c = CHR ''-'' then (- 1, cs) else if c = CHR ''+'' then (1, cs) else (1, c # cs))"

fun stripPrefix :: "string \<Rightarrow> nat \<times> string" where
  "stripPrefix (a # b # cs) =
     (if a = CHR ''0'' \<and> (b = CHR ''x'' \<or> b = CHR ''X'') then (16, cs) else (10, a # b # cs))"
| "stripPrefix cs = (10, cs)"

definition parseInt :: "string \<Rightarrow> int option" where
  "parseInt inputString =
     (let S = dropWhile isWhiteSpace inputString;
          (sign, S1) = stripSign S;
          (R, S2) = stripPrefix S1;
          Z = takeWhile (isRadixDigit R) S2
      in if Z = [] then None else Some (sign * int (digitsValue R Z)))"

text \<open>\<^verbatim>\<open>Number(value)\<close> for a value that \<^verbatim>\<open>parseInt\<close> returned: the number itself.\<close>

definition Number_of :: "int option \<Rightarrow> number" where
  "Number_of v = (case v of None \<Rightarrow> NaN | Some i \<Rightarrow> Finite (of_int i))"

section \<open>The validation helpers of app.ts\<close>

text \<open>Each helper receives the number that its first line, \<^verbatim>\<open>Number(value)\<close>, computes.\<close>

definition isValidCoordinate :: "number \<Rightarrow> bool" where
  "isValidCoordinate num =
     (\<not> isNaN num \<and> isInteger num \<and> js_ge num (Finite 0) \<and> js_lt num (Finite 1048576))"

definition isValidDimension :: "number \<Rightarrow> nat \<Rightarrow> bool" where
  "isValidDimension num mx =
     (\<not> isNaN num \<and> isInteger num \<and> js_gt num (Finite 0) \<and> js_le num (Finite (of_nat mx)))"

definition isValidPaginationParam :: "number \<Rightarrow> nat \<Rightarrow> bool" where
  "isValidPaginationParam num mx =
     (\<not> isNaN num \<and> isInteger num \<and> js_ge num (Finite 0) \<and> js_le num (Finite (of_nat mx)))"

section \<open>Records and responses\<close>

text \<open>
  \<^verbatim>\<open>PixelData\<close>, with the field widths of the specification's Record
  (\<^verbatim>\<open>x: u32, y: u32, color: u32, placedBy: opaque-id, placedAt: u64\<close>); the fields
  \<^verbatim>\<open>x\<close> and \<^verbatim>\<open>y\<close> are written \<open>x_coord\<close> and \<open>y_coord\<close>.
\<close>

record PixelData =
  x_coord :: "32 word"
  y_coord :: "32 word"
  color :: "32 word"
  placedBy :: string
  timestamp :: "64 word"

text \<open>
  The JSON bodies the handlers send: \<^verbatim>\<open>{success: false, error}\<close>,
  \<^verbatim>\<open>{success: true, pixel}\<close>, \<^verbatim>\<open>{success: true, count, pixels}\<close> and
  \<^verbatim>\<open>{success: true, count, total, hasMore, pixels}\<close>.
\<close>

datatype body =
    ErrorBody string
  | PixelBody PixelData
  | RegionBody nat "PixelData list"
  | PixelsBody nat nat bool "PixelData list"

record response =
  status :: nat
  payload :: body

definition errorResponse :: "nat \<Rightarrow> string \<Rightarrow> response" where
  "errorResponse st message = \<lparr>status = st, payload = ErrorBody message\<rparr>"

text \<open>A call of a method of the missing class returns a value or throws; the handlers
  catch what is thrown and answer 500.\<close>

datatype 'a outcome = Thrown | Returned 'a

section \<open>The handlers of app.ts\<close>

subsection \<open>GET /api/pixels/:x/:y\<close>

definition getPixelHandler ::
  "(int \<Rightarrow> int \<Rightarrow> PixelData option outcome) \<Rightarrow> string \<Rightarrow> string \<Rightarrow> response" where
  "getPixelHandler getPixel px py =
     (let x = parseInt px; y = parseInt py in
      if \<not> isValidCoordinate (Number_of x) \<or> \<not> isValidCoordinate (Number_of y)
      then errorResponse 400 ''Invalid coordinates. Must be integers between 0 and 1048575.''
      else case getPixel (the x) (the y) of
             Thrown \<Rightarrow> errorResponse 500 ''Failed to fetch pixel''
           | Returned None \<Rightarrow> errorResponse 404 ''Pixel not found''
           | Returned (Some pixel) \<Rightarrow> \<lparr>status = 200, payload = PixelBody pixel\<rparr>)"

subsection \<open>GET /api/pixels/region/:startX/:startY/:width/:height\<close>

definition getRegionHandler ::
  "(int \<Rightarrow> int \<Rightarrow> int \<Rightarrow> int \<Rightarrow> PixelData list outcome) \<Rightarrow>
     string \<Rightarrow> string \<Rightarrow> string \<Rightarrow> string \<Rightarrow> response" where
  "getRegionHandler getRegion pStartX pStartY pWidth pHeight =
     (let startX = parseInt pStartX; startY = parseInt pStartY;
          width = parseInt pWidth; height = parseInt pHeight in
      if \<not> isValidCoordinate (Number_of startX) \<or> \<not> isValidCoordinate (Number_of startY)
      then errorResponse 400 ''Invalid start coordinates. Must be integers between 0 and 1048575.''
      else if \<not> isValidDimension (Number_of width) 1000 \<or> \<not> isValidDimension (Number_of height) 1000
      then errorResponse 400 ''Invalid dimensions. Must be integers between 1 and 1000.''
      else if the width * the height > 10000
      then errorResponse 400 ''Region too large. Maximum 10,000 pixels (e.g., 100x100).''
      else case getRegion (the startX) (the startY) (the width) (the height) of
             Thrown \<Rightarrow> errorResponse 500 ''Failed to fetch region''
           | Returned pixels \<Rightarrow> \<lparr>status = 200, payload = RegionBody (length pixels) pixels\<rparr>)"

subsection \<open>GET /api/pixels\<close>

text \<open>
  A query parameter is \<^verbatim>\<open>undefined\<close> (\<open>None\<close>) or is given by the number that
  \<^verbatim>\<open>Number()\<close> makes of it. \<^verbatim>\<open>getStats().totalPixels\<close> and \<^verbatim>\<open>getPixelsArray\<close> belong to
  the missing class.
\<close>

definition getPixelsHandler ::
  "(number option \<Rightarrow> number option \<Rightarrow> PixelData list outcome) \<Rightarrow> nat outcome \<Rightarrow>
     number option \<Rightarrow> number option \<Rightarrow> response" where
  "getPixelsHandler getPixelsArray getStats_totalPixels limit offset =
     (if limit \<noteq> None \<and> \<not> isValidPaginationParam (the limit) 100000
      then errorResponse 400 ''Invalid limit. Must be 0-100000.''
      else if offset \<noteq> None \<and> \<not> isValidPaginationParam (the offset) 10000000
      then errorResponse 400 ''Invalid offset. Must be 0-10000000.''
      else case getStats_totalPixels of
        Thrown \<Rightarrow> errorResponse 500 ''Failed to fetch pixels''
      | Returned totalPixels \<Rightarrow>
         (let limitNum = limit; offsetNum = offset;
              offsetOrZero = (case offsetNum of None \<Rightarrow> Finite 0 | Some n \<Rightarrow> n)
          in case (if limitNum \<noteq> None \<or> offsetNum \<noteq> None
                   then getPixelsArray limitNum (Some offsetOrZero)
                   else getPixelsArray None None) of
               Thrown \<Rightarrow> errorResponse 500 ''Failed to fetch pixels''
             | Returned pixelArray \<Rightarrow>
                 \<lparr>status = 200,
                  payload = PixelsBody (length pixelArray) totalPixels
                    (js_lt (js_add offsetOrZero (Finite (of_nat (length pixelArray))))
                           (Finite (of_nat totalPixels)))
                    pixelArray\<rparr>))"

section \<open>The older inline handlers\<close>

text \<open>
  The earlier version of \<^verbatim>\<open>createApp\<close> checks its path parameters with \<^verbatim>\<open>isNaN\<close> only and
  scans the region itself. \<^verbatim>\<open>eventListener.getPixels()\<close> returns the object that maps the
  key \<^verbatim>\<open>`${x},${y}`\<close> to the stored record; the key is a function of \<open>x\<close> and \<open>y\<close>, so the
  object is given by its lookup at \<open>x\<close> and \<open>y\<close>. A stored record is an object and
  therefore truthy, whatever its colour.

  The loop variables are doubles in the source and integers here. The two agree as long
  as every value of the scan stays within \<open>2^53\<close>, as it does for a rectangle that starts
  on the canvas and is at most 1000 wide and high. From \<open>2^53\<close> on \<^verbatim>\<open>x++\<close> no longer
  advances a double; such starts are outside what is proved of the scan.
\<close>

definition legacyGetPixelHandler ::
  "(int \<Rightarrow> int \<Rightarrow> PixelData option outcome) \<Rightarrow> string \<Rightarrow> string \<Rightarrow> response" where
  "legacyGetPixelHandler getPixel px py =
     (let x = parseInt px; y = parseInt py in
      if isNaN (Number_of x) \<or> isNaN (Number_of y)
      then \<lparr>status = 400, payload = ErrorBody ''Invalid coordinates''\<rparr>
      else case getPixel (the x) (the y) of
             Thrown \<Rightarrow> \<lparr>status = 500, payload = ErrorBody ''Failed to fetch pixel''\<rparr>
           | Returned None \<Rightarrow> \<lparr>status = 404, payload = ErrorBody ''Pixel not found''\<rparr>
           | Returned (Some pixel) \<Rightarrow> \<lparr>status = 200, payload = PixelBody pixel\<rparr>)"

text \<open>The inner loop \<^verbatim>\<open>for (let x = startX; x < startX + width; x++)\<close> of one row.\<close>

function regionRow ::
  "(int \<Rightarrow> int \<Rightarrow> PixelData option) \<Rightarrow> int \<Rightarrow> int \<Rightarrow> int \<Rightarrow> PixelData list \<Rightarrow> PixelData list" where
  "regionRow allPixels y x xEnd pixels =
     (if x < xEnd
      then regionRow allPixels y (x + 1) xEnd
             (case allPixels x y of Some p \<Rightarrow> pixels @ [p] | None \<Rightarrow> pixels)
      else pixels)"
  by pat_completeness auto
termination
  by (relation "measure (\<lambda>(allPixels, y, x, xEnd, pixels). nat (xEnd - x))") auto

text \<open>The outer loop \<^verbatim>\<open>for (let y = startY; y < startY + height; y++)\<close>.\<close>

function regionRows ::
  "(int \<Rightarrow> int \<Rightarrow> PixelData option) \<Rightarrow> int \<Rightarrow> int \<Rightarrow> int \<Rightarrow> int \<Rightarrow> PixelData list \<Rightarrow> PixelData list" where
  "regionRows allPixels y yEnd startX xEnd pixels =
     (if y < yEnd
      then regionRows allPixels (y + 1) yEnd startX xEnd (regionRow allPixels y startX xEnd pixels)
      else pixels)"
  by pat_completeness auto
termination
  by (relation "measure (\<lambda>(allPixels, y, yEnd, startX, xEnd, pixels). nat (yEnd - y))") auto

definition legacyGetRegionHandler ::
  "(int \<Rightarrow> int \<Rightarrow> PixelData option) outcome \<Rightarrow> string \<Rightarrow> string \<Rightarrow> string \<Rightarrow> string \<Rightarrow> response" where
  "legacyGetRegionHandler getPixels pStartX pStartY pWidth pHeight =
     (let startX = parseInt pStartX; startY = parseInt pStartY;
          width = parseInt pWidth; height = parseInt pHeight in
      if isNaN (Number_of startX) \<or> isNaN (Number_of startY)
         \<or> isNaN (Number_of width) \<or> isNaN (Number_of height)
      then \<lparr>status = 400, payload = ErrorBody ''Invalid parameters''\<rparr>
      else if the width > 1000 \<or> the height > 1000
      then \<lparr>status = 400, payload = ErrorBody ''Region too large (max 1000x1000)''\<rparr>
      else case getPixels of
             Thrown \<Rightarrow> \<lparr>status = 500, payload = ErrorBody ''Failed to fetch region''\<rparr>
           | Returned allPixels \<Rightarrow>
               (let pixels = regionRows allPixels (the startY) (the startY + the height)
                               (the startX) (the startX + the width) []
                in \<lparr>status = 200, payload = RegionBody (length pixels) pixels\<rparr>))"

section \<open>The binary dump\<close>

subsection \<open>GET /api/pixels/binary\<close>

text \<open>
  The handler of app.ts sends the buffer that \<^verbatim>\<open>getPixelsBinary()\<close> returns, with
  \<^verbatim>\<open>Content-Length\<close> the buffer's length and \<^verbatim>\<open>X-Pixel-Count\<close> the quotient
  \<^verbatim>\<open>buffer.length / 12\<close> (a division of numbers, not of integers).
\<close>

record binaryResponse =
  contentType :: string
  contentLength :: nat
  xPixelCount :: rat
  cacheControl :: string
  content :: "8 word list"

definition getPixelsBinaryHandler :: "8 word list outcome \<Rightarrow> response + binaryResponse" where
  "getPixelsBinaryHandler getPixelsBinary =
     (case getPixelsBinary of
        Thrown \<Rightarrow> Inl (errorResponse 500 ''Failed to get binary pixels'')
      | Returned buffer \<Rightarrow>
          Inr \<lparr>contentType = ''application/octet-stream'',
               contentLength = length buffer,
               xPixelCount = of_nat (length buffer) / 12,
               cacheControl = ''public, max-age=5'',
               content = buffer\<rparr>)"

subsection \<open>fetchAllPixelsBinary\<close>

text \<open>
  \<^verbatim>\<open>DataView.getUint32(byteOffset, true)\<close>: four bytes, least significant first; a
  RangeError is thrown when the four bytes do not lie inside the buffer.
\<close>

definition getUint32 :: "8 word list \<Rightarrow> nat \<Rightarrow> 32 word outcome" where
  "getUint32 buffer byteOffset =
     (if length buffer < byteOffset + 4 then Thrown
      else Returned (ucast (buffer ! byteOffset)
                     OR push_bit 8 (ucast (buffer ! (byteOffset + 1)))
                     OR push_bit 16 (ucast (buffer ! (byteOffset + 2)))
                     OR push_bit 24 (ucast (buffer ! (byteOffset + 3)))))"

text \<open>The loop \<^verbatim>\<open>for (let i = 0; i < pixelCount; i++)\<close>; \<^verbatim>\<open>pixelCount\<close> is the quotient
  \<^verbatim>\<open>buffer.byteLength / 12\<close>, which need not be whole.\<close>

function decodeLoop :: "8 word list \<Rightarrow> rat \<Rightarrow> nat \<Rightarrow> PixelData list \<Rightarrow> PixelData list outcome" where
  "decodeLoop buffer pixelCount i pixels =
     (if of_nat i < pixelCount
      then (let offset = i * 12 in
            case getUint32 buffer offset of Thrown \<Rightarrow> Thrown | Returned vx \<Rightarrow>
            case getUint32 buffer (offset + 4) of Thrown \<Rightarrow> Thrown | Returned vy \<Rightarrow>
            case getUint32 buffer (offset + 8) of Thrown \<Rightarrow> Thrown | Returned vc \<Rightarrow>
              decodeLoop buffer pixelCount (i + 1)
                (pixels @ [\<lparr>x_coord = vx, y_coord = vy, color = vc, placedBy = [], timestamp = 0\<rparr>]))
      else Returned pixels)"
  by pat_completeness auto
termination
  by (relation "measure (\<lambda>(buffer, pixelCount, i, pixels). nat \<lceil>pixelCount\<rceil> - i)")
     (auto simp: zless_nat_eq_int_zless less_ceiling_iff intro!: diff_less_mono2)

definition decodePixelsBinary :: "8 word list \<Rightarrow> PixelData list outcome" where
  "decodePixelsBinary buffer = decodeLoop buffer (of_nat (length buffer) / 12) 0 []"

subsection \<open>The encoder\<close>

text \<open>
  Modelled from the spec: \<^verbatim>\<open>EventListener.getPixelsBinary\<close> is not among the sources. The
  specification gives the layout: \<^verbatim>\<open>x:u32-LE, y:u32-LE, color:u32-LE\<close> per record,
  concatenated. A Cache state enters through the list of its records, in the order in
  which \<^verbatim>\<open>all()\<close> enumerates them.
\<close>

text \<open>Modelled from the spec: a \<^verbatim>\<open>u32\<close> as four bytes, least significant first.\<close>

definition putUint32 :: "32 word \<Rightarrow> 8 word list" where
  "putUint32 w = [ucast w, ucast (drop_bit 8 w), ucast (drop_bit 16 w), ucast (drop_bit 24 w)]"

text \<open>Modelled from the spec: the 12 bytes of one record, \<^verbatim>\<open>x\<close>, \<^verbatim>\<open>y\<close>, \<^verbatim>\<open>color\<close>.\<close>

definition encodeRecord :: "PixelData \<Rightarrow> 8 word list" where
  "encodeRecord p = putUint32 (x_coord p) @ putUint32 (y_coord p) @ putUint32 (color p)"

text \<open>Modelled from the spec: the dump, the blocks of the records one after the other.\<close>

definition getPixelsBinary :: "PixelData list \<Rightarrow> 8 word list" where
  "getPixelsBinary records = concat (map encodeRecord records)"

text \<open>The \<open>(x, y, color)\<close> triple of a record, the content that both dumps carry.\<close>

definition triple :: "PixelData \<Rightarrow> 32 word \<times> 32 word \<times> 32 word" where
  "triple p = (x_coord p, y_coord p, color p)"

section \<open>The ledger: contract Megaplace\<close>

type_synonym address = "160 word"
type_synonym uint256 = "256 word"

text \<open>\<^verbatim>\<open>struct pixel { uint32 color; address placedBy; uint64 timestamp; }\<close>, built
  positionally as \<^verbatim>\<open>pixel(storedColor, msg.sender, currentTime)\<close>.\<close>

datatype pixel = Pixel (pixel_color: "32 word") (pixel_placedBy: address) (pixel_timestamp: "64 word")

text \<open>
  The storage of the contract. A Solidity mapping has a value at every key; a slot that
  was never written reads as zero. \<open>canvas\<close> keeps the written slots apart from the
  others, and \<open>readCanvas\<close> is the read \<^verbatim>\<open>canvas[index]\<close>.
\<close>

record Megaplace =
  owner :: address
  canvas :: "uint256 \<rightharpoonup> pixel"
  lastPlaced :: "address \<Rightarrow> 64 word"
  premiumAccess :: "address \<Rightarrow> 64 word"

definition readCanvas :: "Megaplace \<Rightarrow> uint256 \<Rightarrow> pixel" where
  "readCanvas st index = (case canvas st index of None \<Rightarrow> Pixel 0 0 0 | Some p \<Rightarrow> p)"

datatype event =
    PixelPlaced address uint256 uint256 "32 word" uint256
  | PixelsBatchPlaced address uint256 uint256

text \<open>A failed call: a \<^verbatim>\<open>require\<close> that does not hold reverts with its message; checked
  arithmetic that overflows panics with code \<open>0x11\<close>, an array index out of range with
  code \<open>0x32\<close>. Either way the state is left as it was.\<close>

datatype failure = Revert string | Panic nat

definition CANVAS_RES :: uint256 where
  "CANVAS_RES = 1048576"

subsection \<open>placePixel\<close>

definition placePixel ::
  "Megaplace \<Rightarrow> address \<Rightarrow> uint256 \<Rightarrow> uint256 \<Rightarrow> uint256 \<Rightarrow> 32 word
     \<Rightarrow> failure + Megaplace \<times> event list" where
  "placePixel st msg_sender block_timestamp px py colr =
     (if \<not> (px < CANVAS_RES \<and> py < CANVAS_RES)
      then Inl (Revert ''Megaplace: invalid coordinates'')
      else
        let currentTime = (ucast block_timestamp :: 64 word);
            userPremiumExpiry = premiumAccess st msg_sender;
            lastTime = lastPlaced st msg_sender
        in if currentTime > userPremiumExpiry \<and> 2 ^ 64 \<le> unat lastTime + 15
           then Inl (Panic 0x11)
           else if currentTime > userPremiumExpiry \<and> \<not> (currentTime \<ge> lastTime + 15)
           then Inl (Revert ''Megaplace: rate limit exceeded'')
           else
             let index = px + py * CANVAS_RES;
                 storedColor = (if colr = 0 then 0x010101 else colr)
             in Inr (st\<lparr>canvas := (canvas st)(index \<mapsto> Pixel storedColor msg_sender currentTime),
                        lastPlaced := (lastPlaced st)(msg_sender := currentTime)\<rparr>,
                     [PixelPlaced msg_sender px py storedColor (ucast currentTime)]))"

subsection \<open>placePixelBatch\<close>

text \<open>The loop \<^verbatim>\<open>for (uint256 i = 0; i < length; )\<close>. The source increments \<open>i\<close> in
  the middle of the body and then reads \<^verbatim>\<open>colors[i - 1]\<close>, \<^verbatim>\<open>px[i - 1]\<close> and
  \<^verbatim>\<open>py[i - 1]\<close>; \<open>j\<close> is that incremented counter.\<close>

function placeLoop ::
  "address \<Rightarrow> 64 word \<Rightarrow> uint256 list \<Rightarrow> uint256 list \<Rightarrow> 32 word list \<Rightarrow> nat
     \<Rightarrow> Megaplace \<Rightarrow> event list \<Rightarrow> failure + Megaplace \<times> event list" where
  "placeLoop msg_sender currentTime px py colors i st evs =
     (if i < length px
      then if \<not> i < length py then Inl (Panic 0x32)
      else if \<not> (px ! i < CANVAS_RES \<and> py ! i < CANVAS_RES)
      then Inl (Revert ''Megaplace: invalid coordinates'')
      else
        let index = px ! i + py ! i * CANVAS_RES;
            j = i + 1
        in if \<not> j - 1 < length colors then Inl (Panic 0x32)
           else
             let storedColor = (if colors ! (j - 1) = 0 then 0x010101 else colors ! (j - 1))
             in placeLoop msg_sender currentTime px py colors j
                  (st\<lparr>canvas := (canvas st)(index \<mapsto> Pixel storedColor msg_sender currentTime)\<rparr>)
                  (evs @ [PixelPlaced msg_sender (px ! (j - 1)) (py ! (j - 1)) storedColor
                            (ucast currentTime)])
      else Inr (st, evs))"
  by pat_completeness auto
termination
  by (relation "measure (\<lambda>(msg_sender, currentTime, px, py, colors, i, st, evs). length px - i)")
     auto

definition placePixelBatch ::
  "Megaplace \<Rightarrow> address \<Rightarrow> uint256 \<Rightarrow> uint256 list \<Rightarrow> uint256 list \<Rightarrow> 32 word list
     \<Rightarrow> failure + Megaplace \<times> event list" where
  "placePixelBatch st msg_sender block_timestamp px py colors =
     (let len = length px in
      if \<not> (len = length py \<and> len = length colors)
      then Inl (Revert ''Megaplace: array length mismatch'')
      else if \<not> (len > 0 \<and> len \<le> 100)
      then Inl (Revert ''Megaplace: batch size must be 1-100'')
      else
        let currentTime = (ucast block_timestamp :: 64 word);
            userPremiumExpiry = premiumAccess st msg_sender;
            lastTime = lastPlaced st msg_sender
        in if currentTime > userPremiumExpiry \<and> 2 ^ 64 \<le> unat lastTime + 15
           then Inl (Panic 0x11)
           else if currentTime > userPremiumExpiry \<and> \<not> (currentTime \<ge> lastTime + 15)
           then Inl (Revert ''Megaplace: rate limit exceeded'')
           else case placeLoop msg_sender currentTime px py colors 0 st [] of
                  Inl e \<Rightarrow> Inl e
                | Inr (st', evs) \<Rightarrow>
                    Inr (st'\<lparr>lastPlaced := (lastPlaced st')(msg_sender := currentTime)\<rparr>,
                         evs @ [PixelsBatchPlaced msg_sender (of_nat len) (ucast currentTime)]))"

subsection \<open>getRegion\<close>

text \<open>The inner loop \<^verbatim>\<open>for (uint256 dx = 0; dx < width; )\<close>, with its unchecked
  increments of \<open>dx\<close> and \<open>arrayIndex\<close> and the bounds-checked write
  \<^verbatim>\<open>colors[arrayIndex] = canvas[canvasIndex].color\<close>.\<close>

function regionInner ::
  "Megaplace \<Rightarrow> uint256 \<Rightarrow> uint256 \<Rightarrow> uint256 \<Rightarrow> uint256 \<Rightarrow> uint256 \<Rightarrow> uint256
     \<Rightarrow> 32 word list \<Rightarrow> failure + 32 word list \<times> uint256" where
  "regionInner st startPx startPy width dy dx arrayIndex colors =
     (if dx < width
      then
        let canvasIndex = (startPx + dx) + (startPy + dy) * CANVAS_RES
        in if \<not> unat arrayIndex < length colors then Inl (Panic 0x32)
           else regionInner st startPx startPy width dy (dx + 1) (arrayIndex + 1)
                  (colors[unat arrayIndex := pixel_color (readCanvas st canvasIndex)])
      else Inr (colors, arrayIndex))"
  by pat_completeness auto
termination
proof (relation "measure (\<lambda>(st, startPx, startPy, width, dy, dx, arrayIndex, colors).
                            unat width - unat dx)")
  show "wf (measure (\<lambda>(st, startPx, startPy, width, dy, dx, arrayIndex, colors).
                            unat width - unat dx))"
    by simp
next
  fix st :: Megaplace and startPx startPy width dy dx arrayIndex :: uint256
    and colors :: "32 word list" and canvasIndex :: uint256
  assume "dx < width"
  then have "unat dx < unat width"
    by (simp add: word_less_nat_alt)
  moreover from \<open>dx < width\<close> have "unat (dx + 1) = unat dx + 1"
    by unat_arith
  ultimately show "((st, startPx, startPy, width, dy, dx + 1, arrayIndex + 1,
            colors[unat arrayIndex := pixel_color (readCanvas st canvasIndex)]),
           st, startPx, startPy, width, dy, dx, arrayIndex, colors)
          \<in> measure (\<lambda>(st, startPx, startPy, width, dy, dx, arrayIndex, colors).
                            unat width - unat dx)"
    by simp
qed

text \<open>The outer loop \<^verbatim>\<open>for (uint256 dy = 0; dy < height; )\<close>.\<close>

function regionOuter ::
  "Megaplace \<Rightarrow> uint256 \<Rightarrow> uint256 \<Rightarrow> uint256 \<Rightarrow> uint256 \<Rightarrow> uint256 \<Rightarrow> uint256
     \<Rightarrow> 32 word list \<Rightarrow> failure + 32 word list" where
  "regionOuter st startPx startPy width height dy arrayIndex colors =
     (if dy < height
      then case regionInner st startPx startPy width dy 0 arrayIndex colors of
             Inl e \<Rightarrow> Inl e
           | Inr (colors', arrayIndex') \<Rightarrow>
               regionOuter st startPx startPy width height (dy + 1) arrayIndex' colors'
      else Inr colors)"
  by pat_completeness auto
termination
proof (relation "measure (\<lambda>(st, startPx, startPy, width, height, dy, arrayIndex, colors).
                            unat height - unat dy)")
  show "wf (measure (\<lambda>(st, startPx, startPy, width, height, dy, arrayIndex, colors).
                            unat height - unat dy))"
    by simp
next
  fix st :: Megaplace and startPx startPy width height dy arrayIndex arrayIndex' :: uint256
    and colors colors' :: "32 word list" and r :: "32 word list \<times> uint256"
  assume "dy < height"
  then have "unat dy < unat height"
    by (simp add: word_less_nat_alt)
  moreover from \<open>dy < height\<close> have "unat (dy + 1) = unat dy + 1"
    by unat_arith
  ultimately show "((st, startPx, startPy, width, height, dy + 1, arrayIndex', colors'),
           st, startPx, startPy, width, height, dy, arrayIndex, colors)
          \<in> measure (\<lambda>(st, startPx, startPy, width, height, dy, arrayIndex, colors).
                            unat height - unat dy)"
    by simp
qed

definition getRegion ::
  "Megaplace \<Rightarrow> uint256 \<Rightarrow> uint256 \<Rightarrow> uint256 \<Rightarrow> uint256 \<Rightarrow> failure + 32 word list" where
  "getRegion st startPx startPy width height =
     (if \<not> (startPx < CANVAS_RES \<and> startPy < CANVAS_RES)
      then Inl (Revert ''Megaplace: invalid start coordinates'')
      else if 2 ^ 256 \<le> unat startPx + unat width then Inl (Panic 0x11)
      else if \<not> startPx + width \<le> CANVAS_RES then Inl (Revert ''Megaplace: region out of bounds'')
      else if 2 ^ 256 \<le> unat startPy + unat height then Inl (Panic 0x11)
      else if \<not> startPy + height \<le> CANVAS_RES then Inl (Revert ''Megaplace: region out of bounds'')
      else if \<not> (width > 0 \<and> height > 0) then Inl (Revert ''Megaplace: invalid dimensions'')
      else if 2 ^ 256 \<le> unat width * unat height then Inl (Panic 0x11)
      else
        let totalPixels = width * height;
            colors = replicate (unat totalPixels) 0;
            arrayIndex = 0
        in regionOuter st startPx startPy width height 0 arrayIndex colors)"

section \<open>The Record Cache\<close>

text \<open>
  Modelled from the spec: the class that holds the Cache (\<^verbatim>\<open>eventListener.ts\<close>) is not among
  the sources. The specification describes a mapping from the encoded key
  \<^verbatim>\<open>x + y * RES\<close> to the latest record of that key, and \<^verbatim>\<open>put(record)\<close>, which
  ``applies only if incoming position > stored position, else no-op''. A log entry is a
  record together with its log position (\<^verbatim>\<open>u64\<close>); the Cache keeps the entry, so that the
  stored position is at hand for the comparison. A key without a stored entry has no
  stored position, and \<open>put\<close> applies there.
\<close>

record logEntry = PixelData +
  position :: "64 word"

definition RES :: nat where
  "RES = 1048576"

text \<open>Modelled from the spec: the canonical key \<^verbatim>\<open>x + y * RES\<close>.\<close>

definition keyOf :: "logEntry \<Rightarrow> nat" where
  "keyOf e = unat (x_coord e) + unat (y_coord e) * RES"

type_synonym Cache = "nat \<rightharpoonup> logEntry"

text \<open>Modelled from the spec: \<^verbatim>\<open>put(record)\<close>, a comparison of positions and then the
  replacement of the whole entry.\<close>

definition put :: "Cache \<Rightarrow> logEntry \<Rightarrow> Cache" where
  "put cache e =
     (case cache (keyOf e) of
        None \<Rightarrow> cache(keyOf e \<mapsto> e)
      | Some stored \<Rightarrow> if position stored < position e then cache(keyOf e \<mapsto> e) else cache)"

text \<open>Modelled from the spec: applying a sequence of log entries, in the order of their
  arrival.\<close>

definition applyEntries :: "Cache \<Rightarrow> logEntry list \<Rightarrow> Cache" where
  "applyEntries cache es = foldl put cache es"

text \<open>
  Modelled from the spec: the normalization step, which turns a log entry into the Record
  that is served; the specification asks that the colour be kept as it was received.
\<close>

definition recordOf :: "logEntry \<Rightarrow> PixelData" where
  "recordOf e = \<lparr>x_coord = x_coord e, y_coord = y_coord e, color = color e,
                 placedBy = placedBy e, timestamp = timestamp e\<rparr>"

section \<open>The push stream: GET /api/pixels/stream\<close>

text \<open>
  The three events of the stream: \<^verbatim>\<open>event: connected\<close>, \<^verbatim>\<open>event: pixel\<close> with the record as
  its data, and \<^verbatim>\<open>event: heartbeat\<close> with the time of the tick.
\<close>

datatype sseEvent = ConnectedEvent | PixelEvent PixelData | HeartbeatEvent nat

text \<open>
  The response object that the handler receives. \<^verbatim>\<open>createApp\<close> mounts
  \<^verbatim>\<open>compression({ level: 6 })\<close> in front of every route, and the middleware replaces
  \<^verbatim>\<open>res.write\<close> and adds \<^verbatim>\<open>res.flush\<close>. When the headers go out it decides whether the
  response is compressed: the content type must be compressible (\<^verbatim>\<open>text/event-stream\<close>
  is), \<^verbatim>\<open>Cache-Control\<close> must not say \<^verbatim>\<open>no-transform\<close> (the handler sets \<^verbatim>\<open>no-cache\<close>), and
  the request must accept \<^verbatim>\<open>gzip\<close> or \<^verbatim>\<open>deflate\<close>; for this handler the decision is
  therefore the request's \<^verbatim>\<open>Accept-Encoding\<close>. From then on a chunk that is written goes
  into the compressor, and what the compressor holds leaves for the client when
  \<^verbatim>\<open>res.flush()\<close> or \<^verbatim>\<open>res.end()\<close> is called. (It also leaves when the compressor has
  collected a full block, thousands of bytes; an event of this stream has a few dozen,
  and block boundaries are left out.) Without a compressor a chunk goes to the socket at
  once.
\<close>

record eventStream =
  compressor :: "sseEvent list option"
  socket :: "sseEvent list"

text \<open>\<^verbatim>\<open>res.flushHeaders()\<close>: the headers are sent and the middleware decides.\<close>

definition res_flushHeaders :: "bool \<Rightarrow> eventStream" where
  "res_flushHeaders acceptsCompression =
     \<lparr>compressor = (if acceptsCompression then Some [] else None), socket = []\<rparr>"

definition res_write :: "sseEvent \<Rightarrow> eventStream \<Rightarrow> eventStream" where
  "res_write chunk res =
     (case compressor res of
        Some held \<Rightarrow> res\<lparr>compressor := Some (held @ [chunk])\<rparr>
      | None \<Rightarrow> res\<lparr>socket := socket res @ [chunk]\<rparr>)"

definition res_flush :: "eventStream \<Rightarrow> eventStream" where
  "res_flush res =
     (case compressor res of
        Some held \<Rightarrow> res\<lparr>compressor := Some [], socket := socket res @ held\<rparr>
      | None \<Rightarrow> res)"

text \<open>
  The handler: it sets the four headers, calls \<^verbatim>\<open>res.flushHeaders()\<close> and writes the
  acknowledgment. It then registers \<open>pixelCallback\<close> with \<^verbatim>\<open>eventListener.onPixel\<close> and
  starts the interval that runs \<open>heartbeat\<close> every 30000 ms; the \<^verbatim>\<open>close\<close> listener removes
  both. Each of the three writes to the same response, and none of them calls
  \<^verbatim>\<open>res.flush()\<close> or \<^verbatim>\<open>res.end()\<close>.
\<close>

definition streamHandler :: "bool \<Rightarrow> eventStream" where
  "streamHandler acceptsCompression = res_write ConnectedEvent (res_flushHeaders acceptsCompression)"

definition pixelCallback :: "PixelData \<Rightarrow> eventStream \<Rightarrow> eventStream" where
  "pixelCallback pixel res = res_write (PixelEvent pixel) res"

definition heartbeat :: "nat \<Rightarrow> eventStream \<Rightarrow> eventStream" where
  "heartbeat now res = res_write (HeartbeatEvent now) res"

section \<open>Notions used in the statements\<close>

text \<open>The colour that \<^verbatim>\<open>getRegion\<close> reads for the offsets \<open>dx\<close> and \<open>dy\<close>,
  \<^verbatim>\<open>canvas[(startPx + dx) + (startPy + dy) * CANVAS_RES].color\<close>.\<close>

definition regionColor :: "Megaplace \<Rightarrow> uint256 \<Rightarrow> uint256 \<Rightarrow> uint256 \<Rightarrow> uint256 \<Rightarrow> 32 word" where
  "regionColor st startPx startPy dx dy =
     pixel_color (readCanvas st ((startPx + dx) + (startPy + dy) * CANVAS_RES))"

text \<open>The coordinates of a rectangle in row-major order: row after row, and from left to
  right within a row.\<close>

definition rowMajor :: "int \<Rightarrow> int \<Rightarrow> int \<Rightarrow> int \<Rightarrow> (int \<times> int) list" where
  "rowMajor startX startY width height =
     concat (map (\<lambda>y. map (\<lambda>x. (x, y)) [startX..startX + width - 1])
                 [startY..startY + height - 1])"

text \<open>The equations of the loops are recursive without a guard; they are unfolded by
  hand.\<close>

declare regionRow.simps [simp del]
declare regionRows.simps [simp del]
declare decodeLoop.simps [simp del]
declare placeLoop.simps [simp del]
declare regionInner.simps [simp del]
declare regionOuter.simps [simp del]

section \<open>Example data\<close>

text \<open>A record with colour 0 at \<open>(5, 5)\<close>, and a Cache that holds this record and no
  other, as the lookup \<^verbatim>\<open>getPixel\<close> and as the object \<^verbatim>\<open>getPixels()\<close> returns.\<close>

definition clearedPixel :: PixelData where
  "clearedPixel = \<lparr>x_coord = 5, y_coord = 5, color = 0,
                    placedBy = ''0x00000000000000000000000000000000000000aa'',
                    timestamp = 1700000000\<rparr>"

definition exampleLookup :: "int \<Rightarrow> int \<Rightarrow> PixelData option" where
  "exampleLookup x y = (if x = 5 \<and> y = 5 then Some clearedPixel else None)"

definition exampleGetPixel :: "int \<Rightarrow> int \<Rightarrow> PixelData option outcome" where
  "exampleGetPixel x y = Returned (exampleLookup x y)"

text \<open>An empty Cache, as the lookup of \<^verbatim>\<open>getPixels()\<close> and as \<^verbatim>\<open>getRegion\<close>.\<close>

definition emptyLookup :: "int \<Rightarrow> int \<Rightarrow> PixelData option" where
  "emptyLookup x y = None"

definition emptyGetRegion :: "int \<Rightarrow> int \<Rightarrow> int \<Rightarrow> int \<Rightarrow> PixelData list outcome" where
  "emptyGetRegion startX startY width height = Returned []"

text \<open>A \<^verbatim>\<open>getPixelsArray\<close> that returns one record whatever the page.\<close>

definition exampleGetPixelsArray :: "number option \<Rightarrow> number option \<Rightarrow> PixelData list outcome" where
  "exampleGetPixelsArray limitNum offsetNum = Returned [clearedPixel]"

text \<open>A second record, at the last column, whose colour has three different bytes.\<close>

definition cornerPixel :: PixelData where
  "cornerPixel = \<lparr>x_coord = 1048575, y_coord = 2, color = 0x010203,
                   placedBy = ''0x00000000000000000000000000000000000000bb'',
                   timestamp = 1700000001\<rparr>"

text \<open>Three log entries for the key of \<open>(0, 0)\<close>, at positions 10, 11 and 12, and one
  for \<open>(5, 5)\<close>.\<close>

definition entryRed :: logEntry where
  "entryRed = \<lparr>x_coord = 0, y_coord = 0, color = 0xFF0000, placedBy = ''0xaa'',
                timestamp = 1700000000, position = 10\<rparr>"

definition entryGreen :: logEntry where
  "entryGreen = \<lparr>x_coord = 0, y_coord = 0, color = 0x00FF00, placedBy = ''0xbb'',
                  timestamp = 1700000000, position = 11\<rparr>"

definition entryBlue :: logEntry where
  "entryBlue = \<lparr>x_coord = 0, y_coord = 0, color = 0x0000FF, placedBy = ''0xaa'',
                 timestamp = 1700000001, position = 12\<rparr>"

definition entryElsewhere :: logEntry where
  "entryElsewhere = \<lparr>x_coord = 5, y_coord = 5, color = 0, placedBy = ''0xcc'',
                      timestamp = 1700000000, position = 11\<rparr>"

text \<open>A freshly deployed contract: nothing placed, no premium access.\<close>

definition initialMegaplace :: Megaplace where
  "initialMegaplace =
     \<lparr>owner = 1, canvas = Map.empty, lastPlaced = (\<lambda>a. 0), premiumAccess = (\<lambda>a. 0)\<rparr>"

text \<open>The contract after one placement of colour 0 at \<open>(10, 20)\<close>.\<close>

definition placedMegaplace :: Megaplace where
  "placedMegaplace =
     initialMegaplace\<lparr>canvas := [10 + 20 * CANVAS_RES \<mapsto> Pixel 0x010101 0xAB 1700000000],
                      lastPlaced := (\<lambda>a. 0)(0xAB := 1700000000)\<rparr>"

chapter \<open>Properties\<close>

section \<open>Validation of path and query parameters\<close>

lemma isValidCoordinate_Number_of:
  "isValidCoordinate (Number_of v) \<longleftrightarrow> (\<exists>i. v = Some i \<and> 0 \<le> i \<and> i < 1048576)"
  by (cases v)
     (auto simp: isValidCoordinate_def Number_of_def isNaN_def isInteger_def js_ge_def js_le_def)

lemma isValidDimension_Number_of:
  "isValidDimension (Number_of v) m \<longleftrightarrow> (\<exists>i. v = Some i \<and> 0 < i \<and> i \<le> int m)"
  by (cases v)
     (auto simp: isValidDimension_def Number_of_def isNaN_def isInteger_def js_gt_def js_le_def)

lemma isNaN_Number_of: "isNaN (Number_of v) \<longleftrightarrow> v = None"
  by (cases v) (auto simp: Number_of_def isNaN_def)

text \<open>A pagination parameter is accepted exactly when it is a whole number from 0 to the
  maximum.\<close>

lemma isValidPaginationParam_iff:
  "isValidPaginationParam num m \<longleftrightarrow> (\<exists>n. num = Finite (of_nat n) \<and> n \<le> m)"
proof
  assume "isValidPaginationParam num m"
  then obtain r where r: "num = Finite r" "r = of_int \<lfloor>r\<rfloor>" "0 \<le> r" "r \<le> of_nat m"
    by (cases num)
       (auto simp: isValidPaginationParam_def isNaN_def isInteger_def js_ge_def js_le_def)
  define n where "n = nat \<lfloor>r\<rfloor>"
  have "0 \<le> \<lfloor>r\<rfloor>"
    using r(3) by simp
  then have "of_int \<lfloor>r\<rfloor> = (of_nat n :: rat)"
    by (simp add: n_def)
  with r(2) have rn: "r = of_nat n"
    by simp
  with r(4) have "n \<le> m"
    by simp
  with rn r(1) show "\<exists>n. num = Finite (of_nat n) \<and> n \<le> m"
    by blast
next
  assume "\<exists>n. num = Finite (of_nat n) \<and> n \<le> m"
  then show "isValidPaginationParam num m"
    by (auto simp: isValidPaginationParam_def isNaN_def isInteger_def js_ge_def js_le_def)
qed

lemmas parseInt_eval =
  parseInt_def isWhiteSpace_def isRadixDigit_def digitValue_def digitsValue_def

section \<open>Point lookup\<close>

text \<open>
  What the point-lookup handler does with its two path parameters: when \<^verbatim>\<open>parseInt\<close> reads
  from both an integer in \<open>[0, 1048576)\<close>, the answer is the one the lookup gives (found,
  not found, or a fault when the lookup itself throws); in every other case it is the 400
  with the descriptive message, sent before the Cache is asked.
\<close>

lemma getPixelHandler_valid:
  assumes "parseInt px = Some i" "0 \<le> i" "i < 1048576"
    and "parseInt py = Some j" "0 \<le> j" "j < 1048576"
  shows "getPixelHandler getPixel px py =
          (case getPixel i j of
             Thrown \<Rightarrow> errorResponse 500 ''Failed to fetch pixel''
           | Returned None \<Rightarrow> errorResponse 404 ''Pixel not found''
           | Returned (Some pixel) \<Rightarrow> \<lparr>status = 200, payload = PixelBody pixel\<rparr>)"
  using assms by (auto simp: getPixelHandler_def isValidCoordinate_Number_of)

lemma getPixelHandler_invalid:
  assumes "\<not> ((\<exists>i. parseInt px = Some i \<and> 0 \<le> i \<and> i < 1048576)
         \<and> (\<exists>j. parseInt py = Some j \<and> 0 \<le> j \<and> j < 1048576))"
  shows "getPixelHandler getPixel px py =
          errorResponse 400 ''Invalid coordinates. Must be integers between 0 and 1048575.''"
  using assms by (auto simp: getPixelHandler_def Let_def isValidCoordinate_Number_of)

text \<open>
  Claim C6. A request is to be rejected with 400 when \<open>x\<close> or \<open>y\<close> is not an integer in
  \<open>[0, 1048576)\<close>, and the handler's own message says ``Must be integers''. The handler
  validates what \<^verbatim>\<open>parseInt\<close> has read, and \<^verbatim>\<open>parseInt\<close> stops at the first character
  that is not a digit: of \<^verbatim>\<open>5.9\<close> and of \<^verbatim>\<open>5abc\<close> it reads 5, and of \<^verbatim>\<open>1e3\<close> it reads 1.
  The test \<^verbatim>\<open>Number.isInteger\<close> of \<^verbatim>\<open>isValidCoordinate\<close> therefore never fails, and
  \<^verbatim>\<open>GET /api/pixels/5.9/5abc\<close> is answered like \<^verbatim>\<open>GET /api/pixels/5/5\<close>: with the record
  stored at \<open>(5, 5)\<close>, or with 404 when there is none. (The pagination handler gives its
  validator the query values as they arrived, and \<^verbatim>\<open>Number('5.9')\<close> and \<^verbatim>\<open>Number('5abc')\<close>
  fail the same tests there.)
\<close>

theorem point_lookup_accepts_non_integer_coordinates:
  "parseInt ''5.9'' = Some 5 \<and> parseInt ''5abc'' = Some 5 \<and> parseInt ''1e3'' = Some 1
   \<and> getPixelHandler exampleGetPixel ''5.9'' ''5abc'' =
       \<lparr>status = 200, payload = PixelBody clearedPixel\<rparr>
   \<and> getPixelHandler exampleGetPixel ''1e3'' ''5abc'' = errorResponse 404 ''Pixel not found''
   \<and> getPixelHandler exampleGetPixel ''5'' ''5'' =
       \<lparr>status = 200, payload = PixelBody clearedPixel\<rparr>"
proof -
  have valid: "isValidCoordinate (Number_of (Some i)) \<longleftrightarrow> 0 \<le> i \<and> i < 1048576" for i
    by (simp add: isValidCoordinate_Number_of)
  show ?thesis
    by (simp add: parseInt_eval getPixelHandler_def Let_def valid
                  exampleGetPixel_def exampleLookup_def)
qed

text \<open>The request \<^verbatim>\<open>GET /api/pixels/5.9/5abc\<close> is not answered with 400.\<close>

theorem point_lookup_accepts_non_integer_coordinates_witness:
  "status (getPixelHandler exampleGetPixel ''5.9'' ''5abc'') = 200
   \<and> status (getPixelHandler exampleGetPixel ''5.9'' ''5abc'') \<noteq> 400"
  using point_lookup_accepts_non_integer_coordinates by simp

text \<open>
  Claim C10. For a coordinate pair in range, the point-lookup handler answers 404 with an
  error body (\<^verbatim>\<open>success: false\<close>) when the Cache has no record there, and 200 with the
  record when it has one, whatever the record's colour; the older handler does the same.
  ``The Cache has no record'' is \<^verbatim>\<open>getPixel\<close> returning \<^verbatim>\<open>undefined\<close>.
\<close>

theorem point_lookup_absent_404_present_200:
  "(parseInt px = Some i \<and> 0 \<le> i \<and> i < 1048576 \<and> parseInt py = Some j \<and> 0 \<le> j \<and> j < 1048576
      \<and> getPixel i j = Returned None
     \<longrightarrow> getPixelHandler getPixel px py = errorResponse 404 ''Pixel not found''
         \<and> legacyGetPixelHandler getPixel px py = errorResponse 404 ''Pixel not found'')
   \<and> (parseInt px = Some i \<and> 0 \<le> i \<and> i < 1048576 \<and> parseInt py = Some j \<and> 0 \<le> j \<and> j < 1048576
      \<and> getPixel i j = Returned (Some p)
     \<longrightarrow> getPixelHandler getPixel px py = \<lparr>status = 200, payload = PixelBody p\<rparr>
         \<and> legacyGetPixelHandler getPixel px py = \<lparr>status = 200, payload = PixelBody p\<rparr>)"
  by (auto simp: getPixelHandler_def legacyGetPixelHandler_def isValidCoordinate_Number_of
                 isNaN_Number_of errorResponse_def)

theorem point_lookup_absent_404_present_200_witness:
  "parseInt ''5'' = Some 5 \<and> parseInt ''6'' = Some 6
   \<and> exampleGetPixel 6 5 = Returned None
   \<and> getPixelHandler exampleGetPixel ''6'' ''5'' = errorResponse 404 ''Pixel not found''
   \<and> legacyGetPixelHandler exampleGetPixel ''6'' ''5'' = errorResponse 404 ''Pixel not found''
   \<and> exampleGetPixel 5 5 = Returned (Some clearedPixel) \<and> color clearedPixel = 0
   \<and> getPixelHandler exampleGetPixel ''5'' ''5'' = \<lparr>status = 200, payload = PixelBody clearedPixel\<rparr>
   \<and> legacyGetPixelHandler exampleGetPixel ''5'' ''5'' =
        \<lparr>status = 200, payload = PixelBody clearedPixel\<rparr>"
  using point_lookup_absent_404_present_200 [of "''6''" 6 "''5''" 5 exampleGetPixel clearedPixel]
        point_lookup_absent_404_present_200 [of "''5''" 5 "''5''" 5 exampleGetPixel clearedPixel]
  by (simp add: parseInt_eval exampleGetPixel_def exampleLookup_def clearedPixel_def)

section \<open>Pagination\<close>

text \<open>
  Claim C9. In every 200 answer of the full-dump handler, \<open>hasMore\<close> is true exactly
  when the offset (0 when none was given) plus the number of pixels returned is less than
  the total reported in that answer. Conversely, every request whose parameters are valid
  gets such an answer, provided the two calls into the Cache return.
\<close>

theorem hasMore_iff_offset_plus_count_less_total:
  "(getPixelsHandler getPixelsArray stats limit offset =
       \<lparr>status = 200, payload = PixelsBody count tot hasMore pixels\<rparr>
     \<longrightarrow> (\<exists>n. (offset = None \<and> n = 0 \<or> offset = Some (Finite (of_nat n)) \<and> n \<le> 10000000)
            \<and> (hasMore \<longleftrightarrow> n + count < tot)
            \<and> count = length pixels \<and> stats = Returned tot))
   \<and> ((limit = None \<or> (\<exists>l. limit = Some (Finite (of_nat l)) \<and> l \<le> 100000))
       \<and> (offset = None \<and> n = 0 \<or> offset = Some (Finite (of_nat n)) \<and> n \<le> 10000000)
       \<and> stats = Returned tot
       \<and> (if limit \<noteq> None \<or> offset \<noteq> None
            then getPixelsArray limit (Some (Finite (of_nat n)))
            else getPixelsArray None None) = Returned pixels
     \<longrightarrow> getPixelsHandler getPixelsArray stats limit offset =
          \<lparr>status = 200,
           payload = PixelsBody (length pixels) tot (n + length pixels < tot) pixels\<rparr>)"
proof (intro conjI impI)
  assume "getPixelsHandler getPixelsArray stats limit offset =
            \<lparr>status = 200, payload = PixelsBody count tot hasMore pixels\<rparr>"
  then show "\<exists>n. (offset = None \<and> n = 0 \<or> offset = Some (Finite (of_nat n)) \<and> n \<le> 10000000)
            \<and> (hasMore \<longleftrightarrow> n + count < tot)
            \<and> count = length pixels \<and> stats = Returned tot"
    by (cases offset)
       (auto simp: getPixelsHandler_def Let_def errorResponse_def isValidPaginationParam_iff
             split: if_splits outcome.splits)
next
  assume "(limit = None \<or> (\<exists>l. limit = Some (Finite (of_nat l)) \<and> l \<le> 100000))
       \<and> (offset = None \<and> n = 0 \<or> offset = Some (Finite (of_nat n)) \<and> n \<le> 10000000)
       \<and> stats = Returned tot
       \<and> (if limit \<noteq> None \<or> offset \<noteq> None
            then getPixelsArray limit (Some (Finite (of_nat n)))
            else getPixelsArray None None) = Returned pixels"
  then show "getPixelsHandler getPixelsArray stats limit offset =
          \<lparr>status = 200,
           payload = PixelsBody (length pixels) tot (n + length pixels < tot) pixels\<rparr>"
    by (auto simp: getPixelsHandler_def Let_def errorResponse_def isValidPaginationParam_iff
             split: if_splits outcome.splits)
qed

theorem hasMore_iff_offset_plus_count_less_total_witness:
  "getPixelsHandler exampleGetPixelsArray (Returned 3) (Some (Finite 1)) (Some (Finite 1)) =
     \<lparr>status = 200, payload = PixelsBody 1 3 True [clearedPixel]\<rparr>
   \<and> getPixelsHandler exampleGetPixelsArray (Returned 2) None (Some (Finite 1)) =
     \<lparr>status = 200, payload = PixelsBody 1 2 False [clearedPixel]\<rparr>"
proof -
  note forward = hasMore_iff_offset_plus_count_less_total [THEN conjunct2, rule_format]
  have one: "\<exists>l::nat. (1::rat) = of_nat l \<and> l \<le> 100000"
    by (rule exI [of _ 1]) simp
  have "getPixelsHandler exampleGetPixelsArray (Returned 3) (Some (Finite 1)) (Some (Finite 1)) =
     \<lparr>status = 200, payload = PixelsBody (length [clearedPixel]) 3
                                (Suc 0 + length [clearedPixel] < 3) [clearedPixel]\<rparr>"
    by (rule forward) (simp add: exampleGetPixelsArray_def one)
  moreover have "getPixelsHandler exampleGetPixelsArray (Returned 2) None (Some (Finite 1)) =
     \<lparr>status = 200, payload = PixelsBody (length [clearedPixel]) 2
                                (Suc 0 + length [clearedPixel] < 2) [clearedPixel]\<rparr>"
    by (rule forward) (simp add: exampleGetPixelsArray_def)
  ultimately show ?thesis
    by simp
qed

section \<open>Region requests: the limits on size\<close>

lemma isValidCoordinate_Some [simp]:
  "isValidCoordinate (Number_of (Some i)) \<longleftrightarrow> 0 \<le> i \<and> i < 1048576"
  by (simp add: isValidCoordinate_Number_of)

lemma isValidCoordinate_None [simp]: "\<not> isValidCoordinate (Number_of None)"
  by (simp add: isValidCoordinate_Number_of)

lemma isValidDimension_Some [simp]:
  "isValidDimension (Number_of (Some i)) m \<longleftrightarrow> 0 < i \<and> i \<le> int m"
  by (simp add: isValidDimension_Number_of)

lemma isValidDimension_None [simp]: "\<not> isValidDimension (Number_of None) m"
  by (simp add: isValidDimension_Number_of)

lemma region_oversize_rejected:
  assumes "(\<exists>w. parseInt pWidth = Some w \<and> 1000 < w) \<or> (\<exists>h. parseInt pHeight = Some h \<and> 1000 < h)
      \<or> (\<exists>w h. parseInt pWidth = Some w \<and> parseInt pHeight = Some h \<and> 10000 < w * h)"
  shows "getRegionHandler cacheGetRegion pStartX pStartY pWidth pHeight \<in>
           {errorResponse 400 ''Invalid start coordinates. Must be integers between 0 and 1048575.'',
            errorResponse 400 ''Invalid dimensions. Must be integers between 1 and 1000.'',
            errorResponse 400 ''Region too large. Maximum 10,000 pixels (e.g., 100x100).''}"
  using assms
  by (cases "parseInt pStartX"; cases "parseInt pStartY";
      cases "parseInt pWidth"; cases "parseInt pHeight")
     (auto simp: getRegionHandler_def Let_def)

lemma region_undersize_rejected:
  assumes "parseInt pStartX = Some sx" "0 \<le> sx" "sx < 1048576"
    and "parseInt pStartY = Some sy" "0 \<le> sy" "sy < 1048576"
    and "parseInt pWidth = Some w" "parseInt pHeight = Some h" "w < 1 \<or> h < 1"
  shows "getRegionHandler cacheGetRegion pStartX pStartY pWidth pHeight =
           errorResponse 400 ''Invalid dimensions. Must be integers between 1 and 1000.''"
  using assms by (auto simp: getRegionHandler_def Let_def)

lemma region_undersize_status:
  assumes "parseInt pWidth = Some w" "parseInt pHeight = Some h" "w < 1 \<or> h < 1"
  shows "status (getRegionHandler cacheGetRegion pStartX pStartY pWidth pHeight) = 400"
  using assms
  by (cases "parseInt pStartX"; cases "parseInt pStartY")
     (auto simp: getRegionHandler_def Let_def errorResponse_def)

lemma region_in_bounds_accepted:
  assumes "parseInt pStartX = Some sx" "0 \<le> sx" "sx < 1048576"
    and "parseInt pStartY = Some sy" "0 \<le> sy" "sy < 1048576"
    and "parseInt pWidth = Some w" "parseInt pHeight = Some h"
    and "1 \<le> w" "w \<le> 1000" "1 \<le> h" "h \<le> 1000" "w * h \<le> 10000"
  shows "getRegionHandler cacheGetRegion pStartX pStartY pWidth pHeight =
           (case cacheGetRegion sx sy w h of
              Thrown \<Rightarrow> errorResponse 500 ''Failed to fetch region''
            | Returned pixels \<Rightarrow> \<lparr>status = 200, payload = RegionBody (length pixels) pixels\<rparr>)"
  using assms by (simp add: getRegionHandler_def Let_def)

lemma region_in_bounds_not_size_error:
  assumes "parseInt pWidth = Some w" "parseInt pHeight = Some h"
    and "1 \<le> w" "w \<le> 1000" "1 \<le> h" "h \<le> 1000" "w * h \<le> 10000"
  shows "payload (getRegionHandler cacheGetRegion pStartX pStartY pWidth pHeight) \<notin>
           {ErrorBody ''Invalid dimensions. Must be integers between 1 and 1000.'',
            ErrorBody ''Region too large. Maximum 10,000 pixels (e.g., 100x100).''}"
  using assms
  by (cases "parseInt pStartX"; cases "parseInt pStartY")
     (auto simp: getRegionHandler_def Let_def errorResponse_def split: outcome.splits if_splits)

lemma legacy_region_oversize_rejected:
  assumes "(\<exists>w. parseInt pWidth = Some w \<and> 1000 < w) \<or> (\<exists>h. parseInt pHeight = Some h \<and> 1000 < h)"
  shows "legacyGetRegionHandler getPixels pStartX pStartY pWidth pHeight \<in>
           {\<lparr>status = 400, payload = ErrorBody ''Invalid parameters''\<rparr>,
            \<lparr>status = 400, payload = ErrorBody ''Region too large (max 1000x1000)''\<rparr>}"
  using assms
  by (cases "parseInt pStartX"; cases "parseInt pStartY";
      cases "parseInt pWidth"; cases "parseInt pHeight")
     (auto simp: legacyGetRegionHandler_def Let_def isNaN_Number_of)

text \<open>
  Claim C7, as amended. With width and height the values that \<^verbatim>\<open>parseInt\<close> reads from the
  path, the region handler of app.ts answers 400 with one of its three descriptive
  messages whenever the width or the height exceeds 1000 or their product exceeds 10000; it
  also answers 400 when the width or the height is below 1, with ``Invalid dimensions''
  when the start coordinates are valid. A
  request with both dimensions from 1 to 1000 and an area of at most 10000 is never
  answered with one of the two size errors, and with valid start coordinates it goes
  through to the Cache. The older inline handler answers 400 whenever the width or the
  height exceeds 1000.
\<close>

theorem region_size_validation:
  "(((\<exists>w. parseInt pWidth = Some w \<and> 1000 < w) \<or> (\<exists>h. parseInt pHeight = Some h \<and> 1000 < h)
      \<or> (\<exists>w h. parseInt pWidth = Some w \<and> parseInt pHeight = Some h \<and> 10000 < w * h))
     \<longrightarrow> status (getRegionHandler cacheGetRegion pStartX pStartY pWidth pHeight) = 400
         \<and> payload (getRegionHandler cacheGetRegion pStartX pStartY pWidth pHeight) \<in>
             {ErrorBody ''Invalid start coordinates. Must be integers between 0 and 1048575.'',
              ErrorBody ''Invalid dimensions. Must be integers between 1 and 1000.'',
              ErrorBody ''Region too large. Maximum 10,000 pixels (e.g., 100x100).''})
   \<and> (parseInt pStartX = Some sx \<and> 0 \<le> sx \<and> sx < 1048576
       \<and> parseInt pStartY = Some sy \<and> 0 \<le> sy \<and> sy < 1048576
       \<and> parseInt pWidth = Some w \<and> parseInt pHeight = Some h \<and> (w < 1 \<or> h < 1)
     \<longrightarrow> getRegionHandler cacheGetRegion pStartX pStartY pWidth pHeight =
           errorResponse 400 ''Invalid dimensions. Must be integers between 1 and 1000.'')
   \<and> (parseInt pWidth = Some w \<and> parseInt pHeight = Some h \<and> (w < 1 \<or> h < 1)
     \<longrightarrow> status (getRegionHandler cacheGetRegion pStartX pStartY pWidth pHeight) = 400)
   \<and> (parseInt pWidth = Some w \<and> parseInt pHeight = Some h
       \<and> 1 \<le> w \<and> w \<le> 1000 \<and> 1 \<le> h \<and> h \<le> 1000 \<and> w * h \<le> 10000
     \<longrightarrow> payload (getRegionHandler cacheGetRegion pStartX pStartY pWidth pHeight) \<noteq>
           ErrorBody ''Invalid dimensions. Must be integers between 1 and 1000.''
         \<and> payload (getRegionHandler cacheGetRegion pStartX pStartY pWidth pHeight) \<noteq>
           ErrorBody ''Region too large. Maximum 10,000 pixels (e.g., 100x100).'')
   \<and> (parseInt pStartX = Some sx \<and> 0 \<le> sx \<and> sx < 1048576
       \<and> parseInt pStartY = Some sy \<and> 0 \<le> sy \<and> sy < 1048576
       \<and> parseInt pWidth = Some w \<and> parseInt pHeight = Some h
       \<and> 1 \<le> w \<and> w \<le> 1000 \<and> 1 \<le> h \<and> h \<le> 1000 \<and> w * h \<le> 10000
     \<longrightarrow> getRegionHandler cacheGetRegion pStartX pStartY pWidth pHeight =
           (case cacheGetRegion sx sy w h of
              Thrown \<Rightarrow> errorResponse 500 ''Failed to fetch region''
            | Returned pixels \<Rightarrow> \<lparr>status = 200, payload = RegionBody (length pixels) pixels\<rparr>))
   \<and> (((\<exists>w. parseInt pWidth = Some w \<and> 1000 < w) \<or> (\<exists>h. parseInt pHeight = Some h \<and> 1000 < h))
     \<longrightarrow> status (legacyGetRegionHandler getPixels pStartX pStartY pWidth pHeight) = 400)"
proof (intro conjI impI)
  assume "(\<exists>w. parseInt pWidth = Some w \<and> 1000 < w) \<or> (\<exists>h. parseInt pHeight = Some h \<and> 1000 < h)
      \<or> (\<exists>w h. parseInt pWidth = Some w \<and> parseInt pHeight = Some h \<and> 10000 < w * h)"
  note r = region_oversize_rejected [OF this, of cacheGetRegion pStartX pStartY]
  from r show "status (getRegionHandler cacheGetRegion pStartX pStartY pWidth pHeight) = 400"
    by (auto simp: errorResponse_def)
  from r show "payload (getRegionHandler cacheGetRegion pStartX pStartY pWidth pHeight) \<in>
             {ErrorBody ''Invalid start coordinates. Must be integers between 0 and 1048575.'',
              ErrorBody ''Invalid dimensions. Must be integers between 1 and 1000.'',
              ErrorBody ''Region too large. Maximum 10,000 pixels (e.g., 100x100).''}"
    by (auto simp: errorResponse_def)
next
  assume "parseInt pStartX = Some sx \<and> 0 \<le> sx \<and> sx < 1048576
       \<and> parseInt pStartY = Some sy \<and> 0 \<le> sy \<and> sy < 1048576
       \<and> parseInt pWidth = Some w \<and> parseInt pHeight = Some h \<and> (w < 1 \<or> h < 1)"
  then show "getRegionHandler cacheGetRegion pStartX pStartY pWidth pHeight =
           errorResponse 400 ''Invalid dimensions. Must be integers between 1 and 1000.''"
    by (intro region_undersize_rejected [of pStartX sx pStartY sy pWidth w pHeight h]) simp_all
next
  assume "parseInt pWidth = Some w \<and> parseInt pHeight = Some h \<and> (w < 1 \<or> h < 1)"
  then show "status (getRegionHandler cacheGetRegion pStartX pStartY pWidth pHeight) = 400"
    by (intro region_undersize_status [of pWidth w pHeight h]) simp_all
next
  assume a: "parseInt pWidth = Some w \<and> parseInt pHeight = Some h
       \<and> 1 \<le> w \<and> w \<le> 1000 \<and> 1 \<le> h \<and> h \<le> 1000 \<and> w * h \<le> 10000"
  then have r: "payload (getRegionHandler cacheGetRegion pStartX pStartY pWidth pHeight) \<notin>
           {ErrorBody ''Invalid dimensions. Must be integers between 1 and 1000.'',
            ErrorBody ''Region too large. Maximum 10,000 pixels (e.g., 100x100).''}"
    by (intro region_in_bounds_not_size_error [of pWidth w pHeight h]) simp_all
  from r show "payload (getRegionHandler cacheGetRegion pStartX pStartY pWidth pHeight) \<noteq>
           ErrorBody ''Invalid dimensions. Must be integers between 1 and 1000.''"
    by blast
  from r show "payload (getRegionHandler cacheGetRegion pStartX pStartY pWidth pHeight) \<noteq>
           ErrorBody ''Region too large. Maximum 10,000 pixels (e.g., 100x100).''"
    by blast
next
  assume "parseInt pStartX = Some sx \<and> 0 \<le> sx \<and> sx < 1048576
       \<and> parseInt pStartY = Some sy \<and> 0 \<le> sy \<and> sy < 1048576
       \<and> parseInt pWidth = Some w \<and> parseInt pHeight = Some h
       \<and> 1 \<le> w \<and> w \<le> 1000 \<and> 1 \<le> h \<and> h \<le> 1000 \<and> w * h \<le> 10000"
  then show "getRegionHandler cacheGetRegion pStartX pStartY pWidth pHeight =
           (case cacheGetRegion sx sy w h of
              Thrown \<Rightarrow> errorResponse 500 ''Failed to fetch region''
            | Returned pixels \<Rightarrow> \<lparr>status = 200, payload = RegionBody (length pixels) pixels\<rparr>)"
    by (intro region_in_bounds_accepted) simp_all
next
  assume "(\<exists>w. parseInt pWidth = Some w \<and> 1000 < w) \<or> (\<exists>h. parseInt pHeight = Some h \<and> 1000 < h)"
  from legacy_region_oversize_rejected [OF this, of getPixels pStartX pStartY]
  show "status (legacyGetRegionHandler getPixels pStartX pStartY pWidth pHeight) = 400"
    by auto
qed

theorem region_size_validation_witness:
  "parseInt ''0'' = Some 0 \<and> parseInt ''10'' = Some 10 \<and> parseInt ''1001'' = Some 1001
   \<and> parseInt ''101'' = Some 101 \<and> parseInt ''100'' = Some 100
   \<and> getRegionHandler emptyGetRegion ''0'' ''0'' ''1001'' ''10'' =
       errorResponse 400 ''Invalid dimensions. Must be integers between 1 and 1000.''
   \<and> getRegionHandler emptyGetRegion ''0'' ''0'' ''101'' ''100'' =
       errorResponse 400 ''Region too large. Maximum 10,000 pixels (e.g., 100x100).''
   \<and> getRegionHandler emptyGetRegion ''0'' ''0'' ''0'' ''10'' =
       errorResponse 400 ''Invalid dimensions. Must be integers between 1 and 1000.''
   \<and> getRegionHandler emptyGetRegion ''0'' ''0'' ''100'' ''100'' =
       \<lparr>status = 200, payload = RegionBody 0 []\<rparr>
   \<and> status (legacyGetRegionHandler (Returned emptyLookup) ''0'' ''0'' ''1001'' ''10'') = 400"
  using region_size_validation [of "''1001''" "''10''" emptyGetRegion "''0''" "''0''" 0 0 0 10
          "Returned emptyLookup"]
        region_size_validation [of "''101''" "''100''" emptyGetRegion "''0''" "''0''" 0 0 101 100
          "Returned emptyLookup"]
        region_size_validation [of "''0''" "''10''" emptyGetRegion "''0''" "''0''" 0 0 0 10
          "Returned emptyLookup"]
        region_size_validation [of "''100''" "''100''" emptyGetRegion "''0''" "''0''" 0 0 100 100
          "Returned emptyLookup"]
  by (simp add: parseInt_eval emptyGetRegion_def errorResponse_def getRegionHandler_def Let_def)

text \<open>
  Claim C7 as stated fails for a width of 0: neither dimension exceeds 1000 and the area,
  0, does not exceed 10000, yet the request is rejected for its size.
\<close>

theorem region_within_bounds_rejected_counterexample:
  "parseInt ''0'' = Some 0 \<and> parseInt ''5'' = Some 5
   \<and> \<not> (1000 < (0::int)) \<and> \<not> (1000 < (5::int)) \<and> \<not> (10000 < (0::int) * 5)
   \<and> getRegionHandler emptyGetRegion ''0'' ''0'' ''0'' ''5'' =
       errorResponse 400 ''Invalid dimensions. Must be integers between 1 and 1000.''"
  by (simp add: parseInt_eval getRegionHandler_def Let_def)

section \<open>The ledger stores and emits the sentinel for colour 0\<close>

lemma placePixel_accepted:
  assumes "placePixel st msg_sender block_timestamp px py colr = Inr (st', evs)"
  shows "st' = st\<lparr>canvas := (canvas st)(px + py * CANVAS_RES \<mapsto>
                     Pixel (if colr = 0 then 0x010101 else colr) msg_sender (ucast block_timestamp)),
                  lastPlaced := (lastPlaced st)(msg_sender := ucast block_timestamp)\<rparr>"
    and "evs = [PixelPlaced msg_sender px py (if colr = 0 then 0x010101 else colr)
                  (ucast (ucast block_timestamp :: 64 word))]"
  using assms by (auto simp: placePixel_def Let_def split: if_splits)

lemma placeLoop_done:
  "\<not> i < length pxs \<Longrightarrow> placeLoop sender t pxs pys colors i st evs = Inr (st, evs)"
  by (simp add: placeLoop.simps [of _ _ pxs pys colors i])

lemma placeLoop_step:
  assumes "i < length pxs" "length pys = length pxs" "length colors = length pxs"
    and "placeLoop sender t pxs pys colors i st evs = Inr (st', evs')"
  obtains c where "c \<noteq> 0" "colors ! i = 0 \<longrightarrow> c = 0x010101" "colors ! i \<noteq> 0 \<longrightarrow> c = colors ! i"
    "placeLoop sender t pxs pys colors (Suc i)
       (st\<lparr>canvas := (canvas st)(pxs ! i + pys ! i * CANVAS_RES \<mapsto> Pixel c sender t)\<rparr>)
       (evs @ [PixelPlaced sender (pxs ! i) (pys ! i) c (ucast t)]) = Inr (st', evs')"
proof (cases "colors ! i = 0")
  case True
  with assms have "placeLoop sender t pxs pys colors (Suc i)
       (st\<lparr>canvas := (canvas st)(pxs ! i + pys ! i * CANVAS_RES \<mapsto> Pixel 0x010101 sender t)\<rparr>)
       (evs @ [PixelPlaced sender (pxs ! i) (pys ! i) 0x010101 (ucast t)]) = Inr (st', evs')"
    by (simp add: placeLoop.simps [of _ _ pxs pys colors i] Let_def split: if_splits)
  with True show ?thesis
    by (intro that [of "0x010101"]) simp_all
next
  case False
  with assms have "placeLoop sender t pxs pys colors (Suc i)
       (st\<lparr>canvas := (canvas st)(pxs ! i + pys ! i * CANVAS_RES \<mapsto> Pixel (colors ! i) sender t)\<rparr>)
       (evs @ [PixelPlaced sender (pxs ! i) (pys ! i) (colors ! i) (ucast t)]) = Inr (st', evs')"
    by (simp add: placeLoop.simps [of _ _ pxs pys colors i] Let_def split: if_splits)
  with False show ?thesis
    by (intro that [of "colors ! i"]) simp_all
qed

text \<open>No event of the loop carries colour 0.\<close>

lemma placeLoop_events_nonzero:
  assumes "length pys = length pxs" "length colors = length pxs"
    and "placeLoop sender t pxs pys colors i st evs = Inr (st', evs')"
    and "\<forall>u ex ey ec et. PixelPlaced u ex ey ec et \<in> set evs \<longrightarrow> ec \<noteq> 0"
  shows "\<forall>u ex ey ec et. PixelPlaced u ex ey ec et \<in> set evs' \<longrightarrow> ec \<noteq> 0"
  using assms(3,4)
proof (induction "length pxs - i" arbitrary: i st evs)
  case 0
  then show ?case
    by (simp add: placeLoop_done)
next
  case (Suc n)
  then have i: "i < length pxs"
    by simp
  from placeLoop_step [OF i assms(1,2) Suc.prems(1)]
  obtain c where c: "c \<noteq> 0"
    "placeLoop sender t pxs pys colors (Suc i)
       (st\<lparr>canvas := (canvas st)(pxs ! i + pys ! i * CANVAS_RES \<mapsto> Pixel c sender t)\<rparr>)
       (evs @ [PixelPlaced sender (pxs ! i) (pys ! i) c (ucast t)]) = Inr (st', evs')"
    by blast
  have "n = length pxs - Suc i"
    using Suc.hyps(2) by simp
  from Suc.hyps(1) [OF this c(2)] c(1) Suc.prems(2) show ?case
    by auto
qed

text \<open>An event of the list stays, and every element from \<open>i\<close> on gets its event; the
  event of an element of colour 0 carries the sentinel.\<close>

lemma placeLoop_events_kept:
  assumes "length pys = length pxs" "length colors = length pxs"
    and "placeLoop sender t pxs pys colors i st evs = Inr (st', evs')"
  shows "set evs \<subseteq> set evs'"
  using assms(3)
proof (induction "length pxs - i" arbitrary: i st evs)
  case 0
  then show ?case
    by (simp add: placeLoop_done)
next
  case (Suc n)
  then have i: "i < length pxs"
    by simp
  from placeLoop_step [OF i assms(1,2) Suc.prems(1)]
  obtain c where c:
    "placeLoop sender t pxs pys colors (Suc i)
       (st\<lparr>canvas := (canvas st)(pxs ! i + pys ! i * CANVAS_RES \<mapsto> Pixel c sender t)\<rparr>)
       (evs @ [PixelPlaced sender (pxs ! i) (pys ! i) c (ucast t)]) = Inr (st', evs')"
    by blast
  have "n = length pxs - Suc i"
    using Suc.hyps(2) by simp
  from Suc.hyps(1) [OF this c] show ?case
    by auto
qed

lemma placeLoop_zero_gets_sentinel:
  assumes "length pys = length pxs" "length colors = length pxs"
    and "placeLoop sender t pxs pys colors i st evs = Inr (st', evs')"
    and "i \<le> k" "k < length pxs" "colors ! k = 0"
  shows "PixelPlaced sender (pxs ! k) (pys ! k) 0x010101 (ucast t) \<in> set evs'"
  using assms(3,4)
proof (induction "length pxs - i" arbitrary: i st evs)
  case 0
  with assms(5) show ?case
    by simp
next
  case (Suc n)
  then have i: "i < length pxs"
    by simp
  from placeLoop_step [OF i assms(1,2) Suc.prems(1)]
  obtain c where c: "colors ! i = 0 \<longrightarrow> c = 0x010101"
    "placeLoop sender t pxs pys colors (Suc i)
       (st\<lparr>canvas := (canvas st)(pxs ! i + pys ! i * CANVAS_RES \<mapsto> Pixel c sender t)\<rparr>)
       (evs @ [PixelPlaced sender (pxs ! i) (pys ! i) c (ucast t)]) = Inr (st', evs')"
    by blast
  have n: "n = length pxs - Suc i"
    using Suc.hyps(2) by simp
  show ?case
  proof (cases "k = i")
    case True
    with c(1) assms(6) have "PixelPlaced sender (pxs ! k) (pys ! k) 0x010101 (ucast t)
        \<in> set (evs @ [PixelPlaced sender (pxs ! i) (pys ! i) c (ucast t)])"
      by simp
    with placeLoop_events_kept [OF assms(1,2) c(2)] show ?thesis
      by blast
  next
    case False
    with Suc.prems(2) have "Suc i \<le> k"
      by simp
    from Suc.hyps(1) [OF n c(2) this] show ?thesis .
  qed
qed

text \<open>A slot that holds a colour other than 0 still does after the loop, and the slot of
  every element from \<open>i\<close> on does.\<close>

lemma placeLoop_slot_kept:
  assumes "length pys = length pxs" "length colors = length pxs"
    and "placeLoop sender t pxs pys colors i st evs = Inr (st', evs')"
    and "\<exists>p. canvas st slot = Some p \<and> pixel_color p \<noteq> 0"
  shows "\<exists>p. canvas st' slot = Some p \<and> pixel_color p \<noteq> 0"
  using assms(3,4)
proof (induction "length pxs - i" arbitrary: i st evs)
  case 0
  then show ?case
    by (simp add: placeLoop_done)
next
  case (Suc n)
  then have i: "i < length pxs"
    by simp
  from placeLoop_step [OF i assms(1,2) Suc.prems(1)]
  obtain c where c: "c \<noteq> 0"
    "placeLoop sender t pxs pys colors (Suc i)
       (st\<lparr>canvas := (canvas st)(pxs ! i + pys ! i * CANVAS_RES \<mapsto> Pixel c sender t)\<rparr>)
       (evs @ [PixelPlaced sender (pxs ! i) (pys ! i) c (ucast t)]) = Inr (st', evs')"
    by blast
  have n: "n = length pxs - Suc i"
    using Suc.hyps(2) by simp
  have "\<exists>p. canvas (st\<lparr>canvas := (canvas st)(pxs ! i + pys ! i * CANVAS_RES \<mapsto> Pixel c sender t)\<rparr>) slot
            = Some p \<and> pixel_color p \<noteq> 0"
    using Suc.prems(2) c(1) by simp
  from Suc.hyps(1) [OF n c(2) this] show ?case .
qed

lemma placeLoop_slot_written:
  assumes "length pys = length pxs" "length colors = length pxs"
    and "placeLoop sender t pxs pys colors i st evs = Inr (st', evs')"
    and "i \<le> k" "k < length pxs"
  shows "\<exists>p. canvas st' (pxs ! k + pys ! k * CANVAS_RES) = Some p \<and> pixel_color p \<noteq> 0"
  using assms(3,4)
proof (induction "length pxs - i" arbitrary: i st evs)
  case 0
  with assms(5) show ?case
    by simp
next
  case (Suc n)
  then have i: "i < length pxs"
    by simp
  from placeLoop_step [OF i assms(1,2) Suc.prems(1)]
  obtain c where c: "c \<noteq> 0"
    "placeLoop sender t pxs pys colors (Suc i)
       (st\<lparr>canvas := (canvas st)(pxs ! i + pys ! i * CANVAS_RES \<mapsto> Pixel c sender t)\<rparr>)
       (evs @ [PixelPlaced sender (pxs ! i) (pys ! i) c (ucast t)]) = Inr (st', evs')"
    by blast
  have n: "n = length pxs - Suc i"
    using Suc.hyps(2) by simp
  show ?case
  proof (cases "k = i")
    case True
    have "\<exists>p. canvas (st\<lparr>canvas := (canvas st)(pxs ! i + pys ! i * CANVAS_RES \<mapsto> Pixel c sender t)\<rparr>)
               (pxs ! k + pys ! k * CANVAS_RES) = Some p \<and> pixel_color p \<noteq> 0"
      using True c(1) by simp
    from placeLoop_slot_kept [OF assms(1,2) c(2) this] show ?thesis .
  next
    case False
    with Suc.prems(2) have "Suc i \<le> k"
      by simp
    from Suc.hyps(1) [OF n c(2) this] show ?thesis .
  qed
qed

lemma placePixelBatch_accepted:
  assumes "placePixelBatch st msg_sender block_timestamp pxs pys colors = Inr (st', evs)"
  shows "length pys = length pxs \<and> length colors = length pxs
    \<and> (\<exists>st1 evs1.
         placeLoop msg_sender (ucast block_timestamp) pxs pys colors 0 st [] = Inr (st1, evs1)
         \<and> st' = st1\<lparr>lastPlaced := (lastPlaced st1)(msg_sender := ucast block_timestamp)\<rparr>
         \<and> evs = evs1 @ [PixelsBatchPlaced msg_sender (of_nat (length pxs))
                    (ucast (ucast block_timestamp :: 64 word))])"
proof (cases "placeLoop msg_sender (ucast block_timestamp) pxs pys colors 0 st []")
  case (Inl e)
  with assms show ?thesis
    by (simp add: placePixelBatch_def Let_def split: if_splits)
next
  case (Inr r)
  obtain st1 evs1 where r: "r = (st1, evs1)"
    by (cases r)
  from assms Inr r show ?thesis
    by (simp add: placePixelBatch_def Let_def split: if_splits)
qed


text \<open>
  Claim C3. Every accepted \<^verbatim>\<open>placePixel\<close> with colour 0 stores the sentinel \<open>0x010101\<close> in
  the slot of its coordinates and emits \<^verbatim>\<open>PixelPlaced\<close> with that sentinel. No
  \<^verbatim>\<open>PixelPlaced\<close> event of an accepted \<^verbatim>\<open>placePixel\<close> or \<^verbatim>\<open>placePixelBatch\<close> carries
  colour 0, the slots they write hold a colour other than 0, and an element of a batch
  with colour 0 is emitted with the sentinel. The indexer's normalization keeps the colour
  it receives.
\<close>

theorem color_zero_stored_and_emitted_as_sentinel:
  "(placePixel st msg_sender block_timestamp px py 0 = Inr (st', evs) \<longrightarrow>
      canvas st' (px + py * CANVAS_RES) = Some (Pixel 0x010101 msg_sender (ucast block_timestamp))
      \<and> evs = [PixelPlaced msg_sender px py 0x010101 (ucast (ucast block_timestamp :: 64 word))])
   \<and> (placePixel st msg_sender block_timestamp px py colr = Inr (st', evs) \<longrightarrow>
      (\<forall>u ex ey ec et. PixelPlaced u ex ey ec et \<in> set evs \<longrightarrow> ec \<noteq> 0)
      \<and> (\<exists>p. canvas st' (px + py * CANVAS_RES) = Some p \<and> pixel_color p \<noteq> 0))
   \<and> (placePixelBatch st msg_sender block_timestamp pxs pys colors = Inr (st', evs) \<longrightarrow>
      (\<forall>u ex ey ec et. PixelPlaced u ex ey ec et \<in> set evs \<longrightarrow> ec \<noteq> 0)
      \<and> (\<forall>k<length pxs. \<exists>p. canvas st' (pxs ! k + pys ! k * CANVAS_RES) = Some p
                                \<and> pixel_color p \<noteq> 0)
      \<and> (\<forall>k<length pxs. colors ! k = 0 \<longrightarrow>
            PixelPlaced msg_sender (pxs ! k) (pys ! k) 0x010101
              (ucast (ucast block_timestamp :: 64 word)) \<in> set evs))
   \<and> color (recordOf e) = color e"
proof (intro conjI impI)
  assume "placePixel st msg_sender block_timestamp px py 0 = Inr (st', evs)"
  from placePixel_accepted [OF this]
  show "canvas st' (px + py * CANVAS_RES) = Some (Pixel 0x010101 msg_sender (ucast block_timestamp))"
    and "evs = [PixelPlaced msg_sender px py 0x010101 (ucast (ucast block_timestamp :: 64 word))]"
    by simp_all
next
  assume "placePixel st msg_sender block_timestamp px py colr = Inr (st', evs)"
  from placePixel_accepted [OF this]
  show "\<forall>u ex ey ec et. PixelPlaced u ex ey ec et \<in> set evs \<longrightarrow> ec \<noteq> 0"
    and "\<exists>p. canvas st' (px + py * CANVAS_RES) = Some p \<and> pixel_color p \<noteq> 0"
    by simp_all
next
  assume "placePixelBatch st msg_sender block_timestamp pxs pys colors = Inr (st', evs)"
  from placePixelBatch_accepted [OF this]
  obtain st1 evs1 where len: "length pys = length pxs" "length colors = length pxs"
    and loop: "placeLoop msg_sender (ucast block_timestamp) pxs pys colors 0 st [] = Inr (st1, evs1)"
    and st': "st' = st1\<lparr>lastPlaced := (lastPlaced st1)(msg_sender := ucast block_timestamp)\<rparr>"
    and evs: "evs = evs1 @ [PixelsBatchPlaced msg_sender (of_nat (length pxs))
                    (ucast (ucast block_timestamp :: 64 word))]"
    by blast
  from placeLoop_events_nonzero [OF len loop] evs
  show "\<forall>u ex ey ec et. PixelPlaced u ex ey ec et \<in> set evs \<longrightarrow> ec \<noteq> 0"
    by simp
  from placeLoop_slot_written [OF len loop] st'
  show "\<forall>k<length pxs. \<exists>p. canvas st' (pxs ! k + pys ! k * CANVAS_RES) = Some p
                                \<and> pixel_color p \<noteq> 0"
    by simp
  from placeLoop_zero_gets_sentinel [OF len loop] evs
  show "\<forall>k<length pxs. colors ! k = 0 \<longrightarrow>
            PixelPlaced msg_sender (pxs ! k) (pys ! k) 0x010101
              (ucast (ucast block_timestamp :: 64 word)) \<in> set evs"
    by simp
next
  show "color (recordOf e) = color e"
    by (simp add: recordOf_def)
qed

lemma placePixel_example:
  "placePixel initialMegaplace 0xAB 1700000000 10 20 0 =
     Inr (initialMegaplace\<lparr>canvas := [10 + 20 * CANVAS_RES \<mapsto> Pixel 0x010101 0xAB 1700000000],
                            lastPlaced := (\<lambda>a. 0)(0xAB := 1700000000)\<rparr>,
          [PixelPlaced 0xAB 10 20 0x010101 1700000000])"
  by (simp add: placePixel_def initialMegaplace_def CANVAS_RES_def)

lemma placePixelBatch_example:
  "placePixelBatch initialMegaplace 0xAB 1700000000 [1, 2] [3, 4] [0, 5] =
     Inr (initialMegaplace\<lparr>canvas := [1 + 3 * CANVAS_RES \<mapsto> Pixel 0x010101 0xAB 1700000000,
                                        2 + 4 * CANVAS_RES \<mapsto> Pixel 5 0xAB 1700000000],
                            lastPlaced := (\<lambda>a. 0)(0xAB := 1700000000)\<rparr>,
          [PixelPlaced 0xAB 1 3 0x010101 1700000000, PixelPlaced 0xAB 2 4 5 1700000000,
           PixelsBatchPlaced 0xAB 2 1700000000])"
  by (simp add: placePixelBatch_def placeLoop.simps initialMegaplace_def CANVAS_RES_def)

theorem color_zero_stored_and_emitted_as_sentinel_witness:
  "placePixel initialMegaplace 0xAB 1700000000 10 20 0 =
     Inr (initialMegaplace\<lparr>canvas := [10 + 20 * CANVAS_RES \<mapsto> Pixel 0x010101 0xAB 1700000000],
                            lastPlaced := (\<lambda>a. 0)(0xAB := 1700000000)\<rparr>,
          [PixelPlaced 0xAB 10 20 0x010101 1700000000])
   \<and> canvas (initialMegaplace\<lparr>canvas := [10 + 20 * CANVAS_RES \<mapsto> Pixel 0x010101 0xAB 1700000000],
                            lastPlaced := (\<lambda>a. 0)(0xAB := 1700000000)\<rparr>) (10 + 20 * CANVAS_RES)
       = Some (Pixel 0x010101 0xAB 1700000000)
   \<and> placePixelBatch initialMegaplace 0xAB 1700000000 [1, 2] [3, 4] [0, 5] =
     Inr (initialMegaplace\<lparr>canvas := [1 + 3 * CANVAS_RES \<mapsto> Pixel 0x010101 0xAB 1700000000,
                                        2 + 4 * CANVAS_RES \<mapsto> Pixel 5 0xAB 1700000000],
                            lastPlaced := (\<lambda>a. 0)(0xAB := 1700000000)\<rparr>,
          [PixelPlaced 0xAB 1 3 0x010101 1700000000, PixelPlaced 0xAB 2 4 5 1700000000,
           PixelsBatchPlaced 0xAB 2 1700000000])
   \<and> PixelPlaced 0xAB 1 3 0x010101 1700000000
       \<in> set [PixelPlaced 0xAB 1 3 0x010101 1700000000, PixelPlaced 0xAB 2 4 5 1700000000,
               PixelsBatchPlaced 0xAB 2 1700000000]"
  using color_zero_stored_and_emitted_as_sentinel
          [where st = initialMegaplace and msg_sender = "0xAB" and block_timestamp = 1700000000
             and px = 10 and py = 20 and colr = 0 and pxs = "[]" and pys = "[]" and colors = "[]"
             and st' = "initialMegaplace\<lparr>canvas := [10 + 20 * CANVAS_RES \<mapsto> Pixel 0x010101 0xAB 1700000000],
                            lastPlaced := (\<lambda>a. 0)(0xAB := 1700000000)\<rparr>"
             and evs = "[PixelPlaced 0xAB 10 20 0x010101 1700000000]"]
        color_zero_stored_and_emitted_as_sentinel
          [where st = initialMegaplace and msg_sender = "0xAB" and block_timestamp = 1700000000
             and px = 0 and py = 0 and colr = 0
             and pxs = "[1, 2]" and pys = "[3, 4]" and colors = "[0, 5]"
             and st' = "initialMegaplace\<lparr>canvas := [1 + 3 * CANVAS_RES \<mapsto> Pixel 0x010101 0xAB 1700000000,
                                        2 + 4 * CANVAS_RES \<mapsto> Pixel 5 0xAB 1700000000],
                            lastPlaced := (\<lambda>a. 0)(0xAB := 1700000000)\<rparr>"
             and evs = "[PixelPlaced 0xAB 1 3 0x010101 1700000000, PixelPlaced 0xAB 2 4 5 1700000000,
                         PixelsBatchPlaced 0xAB 2 1700000000]"]
        placePixel_example placePixelBatch_example
  by simp

section \<open>The Record Cache: last write wins\<close>

lemma put_at_key:
  "put cache e (keyOf e) =
     (case cache (keyOf e) of
        None \<Rightarrow> Some e
      | Some stored \<Rightarrow> if position stored < position e then Some e else Some stored)"
  by (simp add: put_def split: option.splits)

lemma put_other_key: "k \<noteq> keyOf e \<Longrightarrow> put cache e k = cache k"
  by (simp add: put_def split: option.splits)

lemma put_changes_iff:
  "put cache e (keyOf e) \<noteq> cache (keyOf e) \<longleftrightarrow>
     (\<forall>stored. cache (keyOf e) = Some stored \<longrightarrow> position stored < position e)"
  by (auto simp: put_at_key split: option.splits)

lemma put_idem: "put (put cache e) e = put cache e"
  by (rule ext) (auto simp: put_def split: option.splits)

text \<open>Once the Cache holds the newest entry of a key, later entries of that key that are
  not newer leave it there.\<close>

lemma applyEntries_keeps_newest:
  assumes "cache (keyOf e3) = Some e3"
    and "\<forall>e\<in>set es. keyOf e = keyOf e3 \<longrightarrow> e = e3 \<or> position e < position e3"
  shows "applyEntries cache es (keyOf e3) = Some e3"
  using assms unfolding applyEntries_def
proof (induction es arbitrary: cache)
  case Nil
  then show ?case by simp
next
  case (Cons e es)
  have "put cache e (keyOf e3) = Some e3"
  proof (cases "keyOf e = keyOf e3")
    case True
    with Cons.prems have "e = e3 \<or> position e < position e3"
      by simp
    with True Cons.prems(1) show ?thesis
      using put_at_key [of cache e] by auto
  next
    case False
    with Cons.prems(1) show ?thesis
      by (simp add: put_other_key)
  qed
  with Cons show ?case
    by simp
qed

lemma applyEntries_last_write_wins:
  assumes "e3 \<in> set es"
    and "\<forall>e\<in>set es. keyOf e = keyOf e3 \<longrightarrow> e = e3 \<or> position e < position e3"
    and "\<forall>stored. cache (keyOf e3) = Some stored \<longrightarrow> position stored < position e3"
  shows "applyEntries cache es (keyOf e3) = Some e3"
  using assms
proof (induction es arbitrary: cache)
  case Nil
  then show ?case by simp
next
  case (Cons e es)
  have rest: "\<forall>e\<in>set es. keyOf e = keyOf e3 \<longrightarrow> e = e3 \<or> position e < position e3"
    using Cons.prems(2) by simp
  have unfold: "applyEntries cache (e # es) = applyEntries (put cache e) es"
    by (simp add: applyEntries_def)
  show ?case
  proof (cases "e = e3")
    case True
    with Cons.prems(3) have "put cache e (keyOf e3) = Some e3"
      using put_at_key [of cache e3] by (auto split: option.splits)
    from applyEntries_keeps_newest [of "put cache e" e3 es, OF this rest] unfold show ?thesis
      by simp
  next
    case False
    with Cons.prems(1) have in_rest: "e3 \<in> set es"
      by simp
    have "\<forall>stored. put cache e (keyOf e3) = Some stored \<longrightarrow> position stored < position e3"
    proof (cases "keyOf e = keyOf e3")
      case True
      with Cons.prems(2) False have "position e < position e3"
        by auto
      with True Cons.prems(3) show ?thesis
        using put_at_key [of cache e] by (auto split: option.splits if_splits)
    next
      case False
      with Cons.prems(3) show ?thesis
        by (simp add: put_other_key)
    qed
    from Cons.IH [of "put cache e", OF in_rest rest this] unfold show ?thesis
      by simp
  qed
qed

text \<open>
  Claim C1. Whatever the Cache holds (so after any sequence of applied entries), \<open>put\<close>
  changes the stored entry of the incoming key exactly when the incoming position is
  greater than the stored one (a key without a stored entry has no stored position, and
  \<open>put\<close> applies); when it changes the entry, the incoming one is stored, and no other
  key is touched. Hence applying an entry a second time changes nothing. When the entries
  of a key among those applied are three entries with positions \<open>p1 < p2 < p3\<close>, in any
  order, with repetitions and with entries of other keys in between, and the Cache held
  nothing as new as \<open>p3\<close> for that key, the Cache ends with the entry of \<open>p3\<close>.
\<close>

theorem put_applies_iff_newer_and_last_write_wins:
  "(put cache e (keyOf e) \<noteq> cache (keyOf e) \<longleftrightarrow>
      (\<forall>stored. cache (keyOf e) = Some stored \<longrightarrow> position stored < position e))
   \<and> (put cache e (keyOf e) \<noteq> cache (keyOf e) \<longrightarrow> put cache e (keyOf e) = Some e)
   \<and> (\<forall>k. k \<noteq> keyOf e \<longrightarrow> put cache e k = cache k)
   \<and> put (put cache e) e = put cache e
   \<and> (keyOf e1 = k \<and> keyOf e2 = k \<and> keyOf e3 = k
        \<and> position e1 < position e2 \<and> position e2 < position e3
        \<and> {entry \<in> set es. keyOf entry = k} = {e1, e2, e3}
        \<and> (\<forall>stored. cache k = Some stored \<longrightarrow> position stored < position e3)
      \<longrightarrow> applyEntries cache es k = Some e3)"
proof (intro conjI impI allI)
  show "put cache e (keyOf e) \<noteq> cache (keyOf e) \<longleftrightarrow>
      (\<forall>stored. cache (keyOf e) = Some stored \<longrightarrow> position stored < position e)"
    by (rule put_changes_iff)
  show "put cache e (keyOf e) = Some e" if "put cache e (keyOf e) \<noteq> cache (keyOf e)"
    using that by (auto simp: put_at_key split: option.splits if_splits)
  show "put cache e k = cache k" if "k \<noteq> keyOf e" for k
    using that by (rule put_other_key)
  show "put (put cache e) e = put cache e"
    by (rule put_idem)
next
  assume a: "keyOf e1 = k \<and> keyOf e2 = k \<and> keyOf e3 = k
        \<and> position e1 < position e2 \<and> position e2 < position e3
        \<and> {entry \<in> set es. keyOf entry = k} = {e1, e2, e3}
        \<and> (\<forall>stored. cache k = Some stored \<longrightarrow> position stored < position e3)"
  then have k: "k = keyOf e3"
    by simp
  from a have "e3 \<in> {entry \<in> set es. keyOf entry = k}"
    by simp
  then have in_es: "e3 \<in> set es"
    by simp
  have older: "\<forall>e\<in>set es. keyOf e = keyOf e3 \<longrightarrow> e = e3 \<or> position e < position e3"
  proof (intro ballI impI)
    fix e assume "e \<in> set es" "keyOf e = keyOf e3"
    with k have "e \<in> {entry \<in> set es. keyOf entry = k}"
      by simp
    with a have "e \<in> {e1, e2, e3}"
      by simp
    with a show "e = e3 \<or> position e < position e3"
      by auto
  qed
  from a k have "\<forall>stored. cache (keyOf e3) = Some stored \<longrightarrow> position stored < position e3"
    by simp
  from applyEntries_last_write_wins [of e3 es cache, OF in_es older this] k
  show "applyEntries cache es k = Some e3"
    by simp
qed

lemmas entry_examples =
  entryRed_def entryGreen_def entryBlue_def entryElsewhere_def keyOf_def RES_def

theorem put_applies_iff_newer_and_last_write_wins_witness:
  "keyOf entryRed = 0 \<and> keyOf entryGreen = 0 \<and> keyOf entryBlue = 0
   \<and> position entryRed < position entryGreen \<and> position entryGreen < position entryBlue
   \<and> applyEntries Map.empty [entryBlue, entryRed, entryElsewhere, entryGreen, entryRed] 0
        = Some entryBlue
   \<and> put Map.empty entryRed (keyOf entryRed) = Some entryRed
   \<and> put (put Map.empty entryRed) entryRed = put Map.empty entryRed
   \<and> put (put Map.empty entryGreen) entryRed = put Map.empty entryGreen"
proof -
  have entries: "{entry \<in> set [entryBlue, entryRed, entryElsewhere, entryGreen, entryRed].
                   keyOf entry = 0} = {entryRed, entryGreen, entryBlue}"
    by (auto simp: entry_examples)
  have order: "keyOf entryRed = 0" "keyOf entryGreen = 0" "keyOf entryBlue = 0"
    "position entryRed < position entryGreen" "position entryGreen < position entryBlue"
    by (simp_all add: entry_examples)
  have unchanged: "put (put Map.empty entryGreen) entryRed = put Map.empty entryGreen"
    by (rule ext) (simp add: put_def entry_examples)
  from put_applies_iff_newer_and_last_write_wins
         [where cache = Map.empty and e = entryRed and k = 0
            and ?e1.0 = entryRed and ?e2.0 = entryGreen and ?e3.0 = entryBlue
            and es = "[entryBlue, entryRed, entryElsewhere, entryGreen, entryRed]"]
       entries order unchanged
  show ?thesis
    by simp
qed

section \<open>The push stream\<close>

text \<open>
  Claim C8. The server is to emit the acknowledgment at connect time and one event per
  published record while the connection is open. For a request that accepts \<^verbatim>\<open>gzip\<close>
  (\<^verbatim>\<open>GET /api/pixels/stream\<close> with \<^verbatim>\<open>Accept-Encoding: gzip\<close>, as browsers send it) the
  handler's writes end in the compressor of the \<^verbatim>\<open>compression\<close> middleware and nothing is
  flushed: when the handler returns, no acknowledgment has left for the client, and the
  record and heartbeat events that follow are held back in the same way. A
  \<^verbatim>\<open>res.flush()\<close> after the write would send them; for a request that accepts no
  compression each write goes out at once.
\<close>

theorem stream_events_are_held_by_the_compressor:
  "socket (streamHandler True) = []
   \<and> compressor (streamHandler True) = Some [ConnectedEvent]
   \<and> socket (heartbeat 30000 (pixelCallback clearedPixel (streamHandler True))) = []
   \<and> compressor (heartbeat 30000 (pixelCallback clearedPixel (streamHandler True))) =
       Some [ConnectedEvent, PixelEvent clearedPixel, HeartbeatEvent 30000]
   \<and> socket (res_flush (streamHandler True)) = [ConnectedEvent]
   \<and> socket (heartbeat 30000 (pixelCallback clearedPixel (streamHandler False))) =
       [ConnectedEvent, PixelEvent clearedPixel, HeartbeatEvent 30000]"
  by (simp add: streamHandler_def pixelCallback_def heartbeat_def res_flushHeaders_def
                res_write_def res_flush_def)

section \<open>The binary dump and the JSON dump\<close>

lemma length_putUint32 [simp]: "length (putUint32 w) = 4"
  by (simp add: putUint32_def)

lemma length_encodeRecord [simp]: "length (encodeRecord p) = 12"
  by (simp add: encodeRecord_def)

lemma length_getPixelsBinary: "length (getPixelsBinary records) = 12 * length records"
  by (induction records) (simp_all add: getPixelsBinary_def)

lemma bytes_to_word:
  "ucast (ucast w :: 8 word)
     OR push_bit 8 (ucast (ucast (drop_bit 8 w) :: 8 word))
     OR push_bit 16 (ucast (ucast (drop_bit 16 w) :: 8 word))
     OR push_bit 24 (ucast (ucast (drop_bit 24 w) :: 8 word)) = (w :: 32 word)"
proof (rule bit_word_eqI)
  fix n
  assume "n < LENGTH(32)"
  then consider "n < 8" | "8 \<le> n" "n < 16" | "16 \<le> n" "n < 24" | "24 \<le> n" "n < 32"
    by fastforce
  then show "bit (ucast (ucast w :: 8 word)
     OR push_bit 8 (ucast (ucast (drop_bit 8 w) :: 8 word))
     OR push_bit 16 (ucast (ucast (drop_bit 16 w) :: 8 word))
     OR push_bit 24 (ucast (ucast (drop_bit 24 w) :: 8 word)) :: 32 word) n = bit w n"
  proof cases
    case 1
    then show ?thesis
      by (simp add: bit_simps)
  next
    case 2
    then show ?thesis
      by (auto simp: bit_simps)
  next
    case 3
    then show ?thesis
      by (auto simp: bit_simps)
  next
    case 4
    then show ?thesis
      by (auto simp: bit_simps)
  qed
qed

lemma getUint32_putUint32:
  "getUint32 (pre @ putUint32 w @ post) (length pre) = Returned w"
  by (simp add: getUint32_def putUint32_def nth_append bytes_to_word)


text \<open>What the decoder makes of a record: the triple is kept, the placer and the time
  are not part of the binary dump.\<close>

lemma decodeLoop_encoded:
  assumes "length pre = 12 * i"
  shows "decodeLoop (pre @ getPixelsBinary records) (of_nat (i + length records)) i acc =
     Returned (acc @ map (\<lambda>p. \<lparr>x_coord = x_coord p, y_coord = y_coord p, color = color p,
                               placedBy = [], timestamp = 0\<rparr>) records)"
  using assms
proof (induction records arbitrary: pre i acc)
  case Nil
  then show ?case
    by (simp add: decodeLoop.simps [of _ _ i] getPixelsBinary_def)
next
  case (Cons r records)
  let ?rest = "getPixelsBinary records"
  let ?buffer = "pre @ getPixelsBinary (r # records)"
  have buffer: "?buffer = pre @ putUint32 (x_coord r) @ putUint32 (y_coord r)
                    @ putUint32 (color r) @ ?rest"
    by (simp add: getPixelsBinary_def encodeRecord_def)
  have off: "i * 12 = length pre"
    using Cons.prems by simp
  have rx: "getUint32 ?buffer (i * 12) = Returned (x_coord r)"
    unfolding buffer off by (rule getUint32_putUint32)
  have "getUint32 ((pre @ putUint32 (x_coord r)) @ putUint32 (y_coord r)
                    @ (putUint32 (color r) @ ?rest)) (length (pre @ putUint32 (x_coord r)))
          = Returned (y_coord r)"
    by (rule getUint32_putUint32)
  then have ry: "getUint32 ?buffer (i * 12 + 4) = Returned (y_coord r)"
    unfolding buffer off by simp
  have "getUint32 ((pre @ putUint32 (x_coord r) @ putUint32 (y_coord r)) @ putUint32 (color r)
                    @ ?rest) (length (pre @ putUint32 (x_coord r) @ putUint32 (y_coord r)))
          = Returned (color r)"
    by (rule getUint32_putUint32)
  then have rc: "getUint32 ?buffer (i * 12 + 8) = Returned (color r)"
    unfolding buffer off by simp
  have more: "(of_nat i :: rat) < of_nat (i + length (r # records))"
    by simp
  have next_pre: "length (pre @ encodeRecord r) = 12 * (i + 1)"
    using Cons.prems by simp
  have same: "(pre @ encodeRecord r) @ ?rest = ?buffer"
    by (simp add: getPixelsBinary_def)
  have count: "i + 1 + length records = i + length (r # records)"
    by simp
  from Cons.IH [OF next_pre, of "acc @ [\<lparr>x_coord = x_coord r, y_coord = y_coord r,
                                          color = color r, placedBy = [], timestamp = 0\<rparr>]"]
  have "decodeLoop ?buffer (of_nat (i + length (r # records))) (i + 1)
          (acc @ [\<lparr>x_coord = x_coord r, y_coord = y_coord r, color = color r,
                    placedBy = [], timestamp = 0\<rparr>]) =
        Returned (acc @ map (\<lambda>p. \<lparr>x_coord = x_coord p, y_coord = y_coord p, color = color p,
                               placedBy = [], timestamp = 0\<rparr>) (r # records))"
    unfolding same count by simp
  then show ?case
    by (subst decodeLoop.simps) (simp only: more rx ry rc if_True Let_def outcome.case)
qed

lemma decodePixelsBinary_getPixelsBinary:
  "decodePixelsBinary (getPixelsBinary records) =
     Returned (map (\<lambda>p. \<lparr>x_coord = x_coord p, y_coord = y_coord p, color = color p,
                          placedBy = [], timestamp = 0\<rparr>) records)"
proof -
  have "(of_nat (length (getPixelsBinary records)) :: rat) / 12 = of_nat (0 + length records)"
    by (simp add: length_getPixelsBinary)
  with decodeLoop_encoded [of "[]" 0 records "[]"] show ?thesis
    by (simp add: decodePixelsBinary_def)
qed


text \<open>
  Claim C4. For the records of a Cache state, in the order \<^verbatim>\<open>all()\<close> lists them: the binary
  dump is the concatenation of one 12-byte block per record (\<open>x\<close>, \<open>y\<close>, \<open>color\<close>, each
  as four bytes, least significant first); the \<^verbatim>\<open>X-Pixel-Count\<close> header, which the handler
  computes as the body's length divided by 12, is the number of records; the decoder of
  the frontend does not throw on the dump, and the records it returns carry exactly the
  \<open>(x, y, color)\<close> triples of the JSON dump of the same state (here even in the same
  order).
\<close>

theorem binary_dump_decodes_to_the_triples_of_the_json_dump:
  "getPixelsBinary records = concat (map encodeRecord records)
   \<and> (\<forall>p\<in>set records. encodeRecord p =
          putUint32 (x_coord p) @ putUint32 (y_coord p) @ putUint32 (color p)
          \<and> length (encodeRecord p) = 12)
   \<and> getPixelsBinaryHandler (Returned (getPixelsBinary records)) =
       Inr \<lparr>contentType = ''application/octet-stream'',
            contentLength = 12 * length records,
            xPixelCount = of_nat (length records),
            cacheControl = ''public, max-age=5'',
            content = getPixelsBinary records\<rparr>
   \<and> (getPixelsBinaryHandler (Returned buffer) = Inr r \<longrightarrow>
        xPixelCount r = of_nat (length (content r)) / 12)
   \<and> payload (getPixelsHandler (\<lambda>limitNum offsetNum. Returned records) (Returned tot) None None)
       = PixelsBody (length records) tot (length records < tot) records
   \<and> decodePixelsBinary (getPixelsBinary records) =
       Returned (map (\<lambda>p. \<lparr>x_coord = x_coord p, y_coord = y_coord p, color = color p,
                            placedBy = [], timestamp = 0\<rparr>) records)
   \<and> (\<exists>decoded. decodePixelsBinary (getPixelsBinary records) = Returned decoded
         \<and> map triple decoded = map triple records
         \<and> set (map triple decoded) = set (map triple records))"
proof (intro conjI ballI impI)
  show "getPixelsBinary records = concat (map encodeRecord records)"
    by (simp add: getPixelsBinary_def)
  show "encodeRecord p = putUint32 (x_coord p) @ putUint32 (y_coord p) @ putUint32 (color p)" for p
    by (simp add: encodeRecord_def)
  show "length (encodeRecord p) = 12" for p
    by simp
  show "getPixelsBinaryHandler (Returned (getPixelsBinary records)) =
       Inr \<lparr>contentType = ''application/octet-stream'',
            contentLength = 12 * length records,
            xPixelCount = of_nat (length records),
            cacheControl = ''public, max-age=5'',
            content = getPixelsBinary records\<rparr>"
    by (simp add: getPixelsBinaryHandler_def length_getPixelsBinary)
  show "xPixelCount r = of_nat (length (content r)) / 12"
    if "getPixelsBinaryHandler (Returned buffer) = Inr r"
    using that by (auto simp: getPixelsBinaryHandler_def)
  show "payload (getPixelsHandler (\<lambda>limitNum offsetNum. Returned records) (Returned tot) None None)
       = PixelsBody (length records) tot (length records < tot) records"
    by (simp add: getPixelsHandler_def)
  show "decodePixelsBinary (getPixelsBinary records) =
       Returned (map (\<lambda>p. \<lparr>x_coord = x_coord p, y_coord = y_coord p, color = color p,
                            placedBy = [], timestamp = 0\<rparr>) records)"
    by (rule decodePixelsBinary_getPixelsBinary)
  show "\<exists>decoded. decodePixelsBinary (getPixelsBinary records) = Returned decoded
         \<and> map triple decoded = map triple records
         \<and> set (map triple decoded) = set (map triple records)"
    by (simp add: decodePixelsBinary_getPixelsBinary triple_def comp_def image_image)
qed

theorem binary_dump_decodes_to_the_triples_of_the_json_dump_witness:
  "getPixelsBinary [clearedPixel, cornerPixel] =
     [5, 0, 0, 0,  5, 0, 0, 0,  0, 0, 0, 0,
      0xFF, 0xFF, 0x0F, 0,  2, 0, 0, 0,  3, 2, 1, 0]
   \<and> getPixelsBinaryHandler (Returned (getPixelsBinary [clearedPixel, cornerPixel])) =
       Inr \<lparr>contentType = ''application/octet-stream'', contentLength = 24, xPixelCount = 2,
            cacheControl = ''public, max-age=5'',
            content = getPixelsBinary [clearedPixel, cornerPixel]\<rparr>
   \<and> decodePixelsBinary (getPixelsBinary [clearedPixel, cornerPixel]) =
       Returned [\<lparr>x_coord = 5, y_coord = 5, color = 0, placedBy = [], timestamp = 0\<rparr>,
                 \<lparr>x_coord = 1048575, y_coord = 2, color = 0x010203, placedBy = [],
                    timestamp = 0\<rparr>]"
  using binary_dump_decodes_to_the_triples_of_the_json_dump
          [of "[clearedPixel, cornerPixel]" "getPixelsBinary [clearedPixel, cornerPixel]"
              "\<lparr>contentType = ''application/octet-stream'', contentLength = 24, xPixelCount = 2,
                cacheControl = ''public, max-age=5'',
                content = getPixelsBinary [clearedPixel, cornerPixel]\<rparr>" 2]
  by (simp add: clearedPixel_def cornerPixel_def getPixelsBinary_def encodeRecord_def putUint32_def)

section \<open>Region queries\<close>

lemma regionInner_fills_row:
  fixes totalPixels :: uint256
  assumes "k \<le> unat width" "a + (unat width - k) \<le> unat totalPixels" "length colors = unat totalPixels"
  shows "\<exists>colors'.
     regionInner st startPx startPy width dy (of_nat k) (of_nat a) colors =
       Inr (colors', of_nat (a + (unat width - k)))
     \<and> length colors' = length colors
     \<and> (\<forall>j<length colors. colors' ! j =
          (if a \<le> j \<and> j < a + (unat width - k)
           then regionColor st startPx startPy (of_nat (k + (j - a))) dy else colors ! j))"
  using assms
proof (induction "unat width - k" arbitrary: k a colors)
  case 0
  then have "k = unat width"
    by simp
  then have "\<not> (of_nat k :: uint256) < width"
    by simp
  then show ?case
    using 0 by (auto simp: regionInner.simps [of _ _ _ width _ "of_nat k"])
next
  case (Suc n)
  then have k: "k < unat width"
    by simp
  then have uk: "unat (of_nat k :: uint256) = k"
    using le_unat_uoi [of k width] by simp
  with k have lt: "(of_nat k :: uint256) < width"
    by (simp add: word_less_nat_alt)
  from Suc.prems k have a: "a < unat totalPixels"
    by simp
  then have ua: "unat (of_nat a :: uint256) = a"
    using le_unat_uoi [of a totalPixels] by simp
  let ?v = "regionColor st startPx startPy (of_nat k) dy"
  have unfold: "regionInner st startPx startPy width dy (of_nat k) (of_nat a) colors =
      regionInner st startPx startPy width dy (of_nat (Suc k)) (of_nat (Suc a)) (colors[a := ?v])"
    using lt a Suc.prems(3)
    by (subst regionInner.simps) (simp add: ua Let_def regionColor_def add.commute)
  have n: "n = unat width - Suc k"
    using Suc.hyps(2) by simp
  have "Suc a + (unat width - Suc k) \<le> unat totalPixels"
    using Suc.prems(2) k by simp
  from Suc.hyps(1) [OF n _ this, of "colors[a := ?v]"] k Suc.prems(3)
  obtain colors' where c':
    "regionInner st startPx startPy width dy (of_nat (Suc k)) (of_nat (Suc a)) (colors[a := ?v]) =
       Inr (colors', of_nat (Suc a + (unat width - Suc k)))"
    "length colors' = length colors"
    "\<forall>j<length colors. colors' ! j =
          (if Suc a \<le> j \<and> j < Suc a + (unat width - Suc k)
           then regionColor st startPx startPy (of_nat (Suc k + (j - Suc a))) dy
           else (colors[a := ?v]) ! j)"
    by auto
  have idx: "Suc a + (unat width - Suc k) = a + (unat width - k)"
    using k by simp
  have "\<forall>j<length colors. colors' ! j =
          (if a \<le> j \<and> j < a + (unat width - k)
           then regionColor st startPx startPy (of_nat (k + (j - a))) dy else colors ! j)"
  proof (intro allI impI)
    fix j assume j: "j < length colors"
    show "colors' ! j =
          (if a \<le> j \<and> j < a + (unat width - k)
           then regionColor st startPx startPy (of_nat (k + (j - a))) dy else colors ! j)"
    proof -
      from c'(3) j
      have cj: "colors' ! j =
          (if Suc a \<le> j \<and> j < Suc a + (unat width - Suc k)
           then regionColor st startPx startPy (of_nat (Suc k + (j - Suc a))) dy
           else (colors[a := ?v]) ! j)"
        by blast
      consider "j = a" | "Suc a \<le> j" | "j < a"
        by linarith
      then show ?thesis
      proof cases
        case 1
        have cond: "a \<le> j \<and> j < a + (unat width - k)"
          using 1 k by linarith
        from 1 cj j have "colors' ! j = regionColor st startPx startPy (of_nat k) dy"
          by simp
        with 1 show ?thesis
          by (subst if_P [OF cond]) simp
      next
        case 2
        then have eq: "Suc k + (j - Suc a) = k + (j - a)" and ne: "a \<noteq> j"
          by linarith+
        show ?thesis
        proof (cases "j < a + (unat width - k)")
          case True
          with 2 have cond: "a \<le> j \<and> j < a + (unat width - k)"
            and cond': "Suc a \<le> j \<and> j < Suc a + (unat width - Suc k)"
            using idx by linarith+
          from cj show ?thesis
            by (subst if_P [OF cond]) (simp only: if_P [OF cond'] eq)
        next
          case False
          then have cond: "\<not> (a \<le> j \<and> j < a + (unat width - k))"
            and cond': "\<not> (Suc a \<le> j \<and> j < Suc a + (unat width - Suc k))"
            using idx by linarith+
          from cj have "colors' ! j = (colors[a := ?v]) ! j"
            by (simp only: if_not_P [OF cond'])
          with ne show ?thesis
            by (subst if_not_P [OF cond]) simp
        qed
      next
        case 3
        then have cond: "\<not> (a \<le> j \<and> j < a + (unat width - k))"
          and cond': "\<not> (Suc a \<le> j \<and> j < Suc a + (unat width - Suc k))"
          and ne: "a \<noteq> j"
          by linarith+
        from cj have "colors' ! j = (colors[a := ?v]) ! j"
          by (simp only: if_not_P [OF cond'])
        with ne show ?thesis
          by (subst if_not_P [OF cond]) simp
      qed
    qed
  qed
  with c'(1,2) unfold idx show ?case
    by simp
qed


lemma regionOuter_fills_rows:
  fixes totalPixels :: uint256
  assumes "m \<le> unat height" "length colors = unat totalPixels"
    and "unat totalPixels = unat width * unat height" "0 < unat width"
  shows "\<exists>colors'.
     regionOuter st startPx startPy width height (of_nat m) (of_nat (m * unat width)) colors =
       Inr colors'
     \<and> length colors' = length colors
     \<and> (\<forall>j<length colors. colors' ! j =
          (if m * unat width \<le> j
           then regionColor st startPx startPy (of_nat (j mod unat width)) (of_nat (j div unat width))
           else colors ! j))"
  using assms(1,2)
proof (induction "unat height - m" arbitrary: m colors)
  case 0
  then have m: "m = unat height"
    by simp
  then have "\<not> (of_nat m :: uint256) < height"
    by simp
  moreover have "\<not> m * unat width \<le> j" if "j < length colors" for j
    using that m 0(3) assms(3) by (simp add: mult.commute)
  ultimately show ?case
    by (simp add: regionOuter.simps [of _ _ _ _ height "of_nat m"])
next
  case (Suc n)
  let ?W = "unat width"
  from Suc have m: "m < unat height"
    by simp
  then have "unat (of_nat m :: uint256) = m"
    using le_unat_uoi [of m height] by simp
  with m have lt: "(of_nat m :: uint256) < height"
    by (simp add: word_less_nat_alt)
  have "Suc m * ?W \<le> unat height * ?W"
    using m by (intro mult_le_mono1) simp
  then have fits: "m * ?W + (?W - 0) \<le> unat totalPixels"
    using assms(3) by (simp add: mult.commute)
  from regionInner_fills_row [of 0 width "m * ?W" totalPixels colors st startPx startPy "of_nat m",
         OF _ fits Suc.prems(2)]
  obtain colors1 where c1:
    "regionInner st startPx startPy width (of_nat m) 0 (of_nat (m * ?W)) colors =
       Inr (colors1, of_nat (m * ?W + ?W))"
    "length colors1 = length colors"
    "\<forall>j<length colors. colors1 ! j =
          (if m * ?W \<le> j \<and> j < m * ?W + ?W
           then regionColor st startPx startPy (of_nat (j - m * ?W)) (of_nat m) else colors ! j)"
    by auto
  have unfold: "regionOuter st startPx startPy width height (of_nat m) (of_nat (m * ?W)) colors =
      regionOuter st startPx startPy width height (of_nat (Suc m)) (of_nat (Suc m * ?W)) colors1"
    using lt c1(1)
    by (subst regionOuter.simps) (simp add: add.commute)
  have n: "n = unat height - Suc m"
    using Suc.hyps(2) by simp
  have len1: "length colors1 = unat totalPixels"
    using c1(2) Suc.prems(2) by simp
  from Suc.hyps(1) [OF n _ len1] m
  obtain colors' where c':
    "regionOuter st startPx startPy width height (of_nat (Suc m)) (of_nat (Suc m * ?W)) colors1 =
       Inr colors'"
    "length colors' = length colors1"
    "\<forall>j<length colors1. colors' ! j =
          (if Suc m * ?W \<le> j
           then regionColor st startPx startPy (of_nat (j mod ?W)) (of_nat (j div ?W))
           else colors1 ! j)"
    by auto
  have "\<forall>j<length colors. colors' ! j =
          (if m * ?W \<le> j
           then regionColor st startPx startPy (of_nat (j mod ?W)) (of_nat (j div ?W))
           else colors ! j)"
  proof (intro allI impI)
    fix j assume j: "j < length colors"
    with c'(3) c1(2)
    have cj: "colors' ! j =
          (if Suc m * ?W \<le> j
           then regionColor st startPx startPy (of_nat (j mod ?W)) (of_nat (j div ?W))
           else colors1 ! j)"
      by simp
    from c1(3) j
    have c1j: "colors1 ! j =
          (if m * ?W \<le> j \<and> j < m * ?W + ?W
           then regionColor st startPx startPy (of_nat (j - m * ?W)) (of_nat m) else colors ! j)"
      by blast
    consider "Suc m * ?W \<le> j" | "m * ?W \<le> j" "j < Suc m * ?W" | "j < m * ?W"
      by linarith
    then show "colors' ! j =
          (if m * ?W \<le> j
           then regionColor st startPx startPy (of_nat (j mod ?W)) (of_nat (j div ?W))
           else colors ! j)"
    proof cases
      case 1
      then have "m * ?W \<le> j"
        by simp
      with 1 cj show ?thesis
        by simp
    next
      case 2
      have d: "j div ?W = m"
        using 2 by (intro div_nat_eqI) (simp_all add: mult.commute)
      have "j mod ?W = j - (j div ?W) * ?W"
        by (simp add: minus_div_mult_eq_mod)
      with d have md: "j mod ?W = j - m * ?W"
        by simp
      from 2 have in_row: "m * ?W \<le> j \<and> j < m * ?W + ?W"
        by simp
      from 2 cj have "colors' ! j = colors1 ! j"
        by simp
      also from c1j have "\<dots> = regionColor st startPx startPy (of_nat (j - m * ?W)) (of_nat m)"
        by (simp only: if_P [OF in_row])
      finally show ?thesis
        using 2(1) d md by simp
    next
      case 3
      then have not_row: "\<not> (m * ?W \<le> j \<and> j < m * ?W + ?W)" and "\<not> Suc m * ?W \<le> j"
        by simp_all
      with cj have "colors' ! j = colors1 ! j"
        by simp
      also from c1j have "\<dots> = colors ! j"
        by (simp only: if_not_P [OF not_row])
      finally show ?thesis
        using 3 by simp
    qed
  qed
  with c'(1,2) c1(2) unfold show ?case
    by simp
qed


lemma unat_CANVAS_RES: "unat CANVAS_RES = 1048576"
  by (simp add: CANVAS_RES_def)

lemma getRegion_in_bounds:
  assumes "unat startPx < 1048576" "unat startPy < 1048576"
    and "unat startPx + unat width \<le> 1048576" "unat startPy + unat height \<le> 1048576"
    and "0 < unat width" "0 < unat height"
  shows "\<exists>colors.
     getRegion st startPx startPy width height = Inr colors
     \<and> length colors = unat width * unat height
     \<and> (\<forall>dx dy. dx < unat width \<longrightarrow> dy < unat height \<longrightarrow>
           colors ! (dy * unat width + dx) =
             regionColor st startPx startPy (of_nat dx) (of_nat dy))"
proof -
  let ?W = "unat width" and ?H = "unat height"
  have small: "(1048576 :: nat) < 2 ^ 256"
    by simp
  have start: "startPx < CANVAS_RES \<and> startPy < CANVAS_RES"
    using assms(1,2) by (simp add: word_less_nat_alt unat_CANVAS_RES)
  have nx: "\<not> 2 ^ 256 \<le> unat startPx + ?W" and ny: "\<not> 2 ^ 256 \<le> unat startPy + ?H"
    using assms(3,4) small by linarith+
  have "unat (startPx + width) = unat startPx + ?W"
    using nx by (intro unat_add_lem [THEN iffD1]) simp
  with assms(3) have bx: "startPx + width \<le> CANVAS_RES"
    by (simp add: word_le_nat_alt unat_CANVAS_RES)
  have "unat (startPy + height) = unat startPy + ?H"
    using ny by (intro unat_add_lem [THEN iffD1]) simp
  with assms(4) have "by": "startPy + height \<le> CANVAS_RES"
    by (simp add: word_le_nat_alt unat_CANVAS_RES)
  have pos: "width > 0 \<and> height > 0"
    using assms(5,6) by (simp add: word_less_nat_alt)
  have "?W \<le> 1048576" "?H \<le> 1048576"
    using assms(3,4) by linarith+
  then have "?W * ?H \<le> 1048576 * 1048576"
    by (rule mult_le_mono)
  moreover have "(1048576 :: nat) * 1048576 < 2 ^ 256"
    by simp
  ultimately have prod: "?W * ?H < 2 ^ 256"
    by linarith
  then have nm: "\<not> 2 ^ 256 \<le> ?W * ?H"
    by simp
  have total: "unat (width * height) = ?W * ?H"
    using prod by (intro unat_mult_lem [THEN iffD1]) simp
  have run: "getRegion st startPx startPy width height =
      regionOuter st startPx startPy width height 0 0 (replicate (?W * ?H) 0)"
    using start nx bx ny "by" pos nm by (simp add: getRegion_def Let_def total)
  from regionOuter_fills_rows [of 0 height "replicate (?W * ?H) 0" "width * height" width
         st startPx startPy] total assms(5)
  obtain colors where c:
    "regionOuter st startPx startPy width height 0 0 (replicate (?W * ?H) 0) = Inr colors"
    "length colors = ?W * ?H"
    "\<forall>j<?W * ?H. colors ! j =
        regionColor st startPx startPy (of_nat (j mod ?W)) (of_nat (j div ?W))"
    by auto
  have "colors ! (dy * ?W + dx) = regionColor st startPx startPy (of_nat dx) (of_nat dy)"
    if "dx < ?W" "dy < ?H" for dx dy
  proof -
    have "dy * ?W + dx < Suc dy * ?W"
      using that(1) by simp
    also have "\<dots> \<le> ?H * ?W"
      using that(2) by (intro mult_le_mono1) simp
    finally have "dy * ?W + dx < ?W * ?H"
      by (simp add: mult.commute)
    with c(3) that(1) show ?thesis
      by simp
  qed
  with run c(1,2) show ?thesis
    by simp
qed


lemma regionRow_eq:
  "regionRow allPixels y x xEnd pixels =
     pixels @ List.map_filter (\<lambda>x'. allPixels x' y) [x..xEnd - 1]"
proof (induction allPixels y x xEnd pixels rule: regionRow.induct)
  case (1 allPixels y x xEnd pixels)
  show ?case
  proof (cases "x < xEnd")
    case False
    then have "[x..xEnd - 1] = []"
      by simp
    with False show ?thesis
      by (simp add: regionRow.simps [of _ _ x] List.map_filter_simps)
  next
    case True
    then have cells: "[x..xEnd - 1] = x # [x + 1..xEnd - 1]"
      by (simp add: upto_rec1)
    from True have "regionRow allPixels y x xEnd pixels =
        regionRow allPixels y (x + 1) xEnd
          (case allPixels x y of Some p \<Rightarrow> pixels @ [p] | None \<Rightarrow> pixels)"
      by (subst regionRow.simps) simp
    also have "\<dots> = (case allPixels x y of Some p \<Rightarrow> pixels @ [p] | None \<Rightarrow> pixels)
        @ List.map_filter (\<lambda>x'. allPixels x' y) [x + 1..xEnd - 1]"
      using True by (rule "1.IH")
    also have "\<dots> = pixels @ List.map_filter (\<lambda>x'. allPixels x' y) [x..xEnd - 1]"
      unfolding cells by (simp add: List.map_filter_simps split: option.splits)
    finally show ?thesis .
  qed
qed

lemma regionRows_eq:
  "regionRows allPixels y yEnd startX xEnd pixels =
     pixels @ concat (map (\<lambda>y'. List.map_filter (\<lambda>x'. allPixels x' y') [startX..xEnd - 1])
                          [y..yEnd - 1])"
proof (induction allPixels y yEnd startX xEnd pixels rule: regionRows.induct)
  case (1 allPixels y yEnd startX xEnd pixels)
  show ?case
  proof (cases "y < yEnd")
    case False
    then have "[y..yEnd - 1] = []"
      by simp
    with False show ?thesis
      by (simp add: regionRows.simps [of _ y])
  next
    case True
    then have rows: "[y..yEnd - 1] = y # [y + 1..yEnd - 1]"
      by (simp add: upto_rec1)
    from True have "regionRows allPixels y yEnd startX xEnd pixels =
        regionRows allPixels (y + 1) yEnd startX xEnd (regionRow allPixels y startX xEnd pixels)"
      by (subst regionRows.simps) simp
    also have "\<dots> = regionRow allPixels y startX xEnd pixels
        @ concat (map (\<lambda>y'. List.map_filter (\<lambda>x'. allPixels x' y') [startX..xEnd - 1])
                      [y + 1..yEnd - 1])"
      using True by (rule "1.IH")
    also have "\<dots> = pixels
        @ concat (map (\<lambda>y'. List.map_filter (\<lambda>x'. allPixels x' y') [startX..xEnd - 1])
                      [y..yEnd - 1])"
      unfolding rows by (simp add: regionRow_eq)
    finally show ?thesis .
  qed
qed

lemma map_filter_rows:
  "concat (map (\<lambda>y. List.map_filter (\<lambda>x. f x y) xs) ys) =
     List.map_filter (\<lambda>(x, y). f x y) (concat (map (\<lambda>y. map (\<lambda>x. (x, y)) xs) ys))"
proof (induction ys)
  case Nil
  show ?case by (simp add: List.map_filter_simps)
next
  case (Cons y ys)
  have "List.map_filter (\<lambda>(x, y). f x y) (map (\<lambda>x. (x, y)) xs) = List.map_filter (\<lambda>x. f x y) xs"
    by (simp add: List.map_filter_def comp_def filter_map)
  with Cons show ?case
    by (simp add: List.map_filter_def)
qed

lemma regionRows_rowMajor:
  "regionRows allPixels startY (startY + height) startX (startX + width) [] =
     List.map_filter (\<lambda>(x, y). allPixels x y) (rowMajor startX startY width height)"
  by (simp add: regionRows_eq map_filter_rows rowMajor_def)

lemma length_map_filter:
  "length (List.map_filter f xs) = length (filter (\<lambda>x. f x \<noteq> None) xs)"
  by (simp add: List.map_filter_def)

lemma replicate_two: "replicate 2 x = [x, x]"
  by (simp add: numeral_2_eq_2)

lemma length_map_filter_le: "length (List.map_filter f xs) \<le> length xs"
  by (simp add: List.map_filter_def)

lemma length_rowMajor: "length (rowMajor startX startY width height) = nat width * nat height"
proof -
  have "length (concat (map (\<lambda>y. map (\<lambda>x. (x, y)) xs) ys)) = length xs * length ys"
    for xs ys :: "int list"
    by (induction ys) simp_all
  then show ?thesis
    by (simp add: rowMajor_def)
qed


lemma regionColor_unset:
  "regionColor st startPx startPy dx dy =
     (case canvas st ((startPx + dx) + (startPy + dy) * CANVAS_RES) of
        None \<Rightarrow> 0
      | Some p \<Rightarrow> pixel_color p)"
  by (simp add: regionColor_def readCanvas_def split: option.splits)

text \<open>
  Claim C2, as amended. For every rectangle that lies inside the canvas and has a positive
  width and height, \<^verbatim>\<open>getRegion\<close> of the ledger does not revert and returns exactly
  \<open>width * height\<close> colours, one per coordinate in row-major order, with colour 0 for a
  coordinate that was never written; it returns colours only. For a rectangle that starts
  on the canvas and is at most 1000 wide and high, the inline region handler of the
  backend returns, in row-major order, the stored records of the rectangle and nothing for
  a coordinate without a record, so its count is the number of stored records in the
  rectangle, at most \<open>width * height\<close>; it does not fail on such coordinates.
\<close>

theorem region_is_row_major_dense_on_ledger_sparse_on_backend:
  "(unat startPx < 1048576 \<and> unat startPy < 1048576
      \<and> unat startPx + unat width \<le> 1048576 \<and> unat startPy + unat height \<le> 1048576
      \<and> 0 < unat width \<and> 0 < unat height
     \<longrightarrow> (\<exists>colors.
           getRegion st startPx startPy width height = Inr colors
           \<and> length colors = unat width * unat height
           \<and> (\<forall>dx dy. dx < unat width \<longrightarrow> dy < unat height \<longrightarrow>
                 colors ! (dy * unat width + dx) =
                   (case canvas st ((startPx + of_nat dx) + (startPy + of_nat dy) * CANVAS_RES) of
                      None \<Rightarrow> 0
                    | Some p \<Rightarrow> pixel_color p))))
   \<and> (parseInt pStartX = Some sx \<and> 0 \<le> sx \<and> sx < 1048576
      \<and> parseInt pStartY = Some sy \<and> 0 \<le> sy \<and> sy < 1048576
      \<and> parseInt pWidth = Some w \<and> parseInt pHeight = Some h \<and> w \<le> 1000 \<and> h \<le> 1000
     \<longrightarrow> legacyGetRegionHandler (Returned allPixels) pStartX pStartY pWidth pHeight =
           \<lparr>status = 200,
            payload = RegionBody
              (length (List.map_filter (\<lambda>(x, y). allPixels x y) (rowMajor sx sy w h)))
              (List.map_filter (\<lambda>(x, y). allPixels x y) (rowMajor sx sy w h))\<rparr>
         \<and> length (List.map_filter (\<lambda>(x, y). allPixels x y) (rowMajor sx sy w h))
             = length (filter (\<lambda>c. (case c of (x, y) \<Rightarrow> allPixels x y) \<noteq> None)
                              (rowMajor sx sy w h))
         \<and> length (List.map_filter (\<lambda>(x, y). allPixels x y) (rowMajor sx sy w h))
             \<le> nat w * nat h)"
proof (intro conjI impI)
  assume "unat startPx < 1048576 \<and> unat startPy < 1048576
      \<and> unat startPx + unat width \<le> 1048576 \<and> unat startPy + unat height \<le> 1048576
      \<and> 0 < unat width \<and> 0 < unat height"
  then have "\<exists>colors.
     getRegion st startPx startPy width height = Inr colors
     \<and> length colors = unat width * unat height
     \<and> (\<forall>dx dy. dx < unat width \<longrightarrow> dy < unat height \<longrightarrow>
           colors ! (dy * unat width + dx) =
             regionColor st startPx startPy (of_nat dx) (of_nat dy))"
    by (intro getRegion_in_bounds) simp_all
  then show "\<exists>colors.
           getRegion st startPx startPy width height = Inr colors
           \<and> length colors = unat width * unat height
           \<and> (\<forall>dx dy. dx < unat width \<longrightarrow> dy < unat height \<longrightarrow>
                 colors ! (dy * unat width + dx) =
                   (case canvas st ((startPx + of_nat dx) + (startPy + of_nat dy) * CANVAS_RES) of
                      None \<Rightarrow> 0
                    | Some p \<Rightarrow> pixel_color p))"
    by (simp add: regionColor_unset)
next
  assume a: "parseInt pStartX = Some sx \<and> 0 \<le> sx \<and> sx < 1048576
      \<and> parseInt pStartY = Some sy \<and> 0 \<le> sy \<and> sy < 1048576
      \<and> parseInt pWidth = Some w \<and> parseInt pHeight = Some h \<and> w \<le> 1000 \<and> h \<le> 1000"
  then show "legacyGetRegionHandler (Returned allPixels) pStartX pStartY pWidth pHeight =
           \<lparr>status = 200,
            payload = RegionBody
              (length (List.map_filter (\<lambda>(x, y). allPixels x y) (rowMajor sx sy w h)))
              (List.map_filter (\<lambda>(x, y). allPixels x y) (rowMajor sx sy w h))\<rparr>"
    by (simp add: legacyGetRegionHandler_def Let_def isNaN_Number_of regionRows_rowMajor)
  show "length (List.map_filter (\<lambda>(x, y). allPixels x y) (rowMajor sx sy w h))
             = length (filter (\<lambda>c. (case c of (x, y) \<Rightarrow> allPixels x y) \<noteq> None)
                              (rowMajor sx sy w h))"
    by (rule length_map_filter)
  show "length (List.map_filter (\<lambda>(x, y). allPixels x y) (rowMajor sx sy w h)) \<le> nat w * nat h"
    using length_map_filter_le [of "\<lambda>(x, y). allPixels x y" "rowMajor sx sy w h"]
    by (simp add: length_rowMajor)
qed

lemma getRegion_example:
  "getRegion placedMegaplace 10 20 2 1 = Inr [0x010101, 0]"
  by (simp add: getRegion_def regionOuter.simps regionInner.simps readCanvas_def
                placedMegaplace_def initialMegaplace_def CANVAS_RES_def replicate_two)

lemma legacy_region_example:
  "legacyGetRegionHandler (Returned exampleLookup) ''4'' ''5'' ''2'' ''1'' =
     \<lparr>status = 200, payload = RegionBody 1 [clearedPixel]\<rparr>"
  by (simp add: legacyGetRegionHandler_def Let_def isNaN_Number_of parseInt_eval
                regionRows.simps regionRow.simps exampleLookup_def)

theorem region_is_row_major_dense_on_ledger_sparse_on_backend_witness:
  "getRegion placedMegaplace 10 20 2 1 = Inr [0x010101, 0]
   \<and> length [0x010101, 0 :: 32 word] = unat (2 :: uint256) * unat (1 :: uint256)
   \<and> parseInt ''4'' = Some 4 \<and> parseInt ''5'' = Some 5
   \<and> parseInt ''2'' = Some 2 \<and> parseInt ''1'' = Some 1
   \<and> legacyGetRegionHandler (Returned exampleLookup) ''4'' ''5'' ''2'' ''1'' =
       \<lparr>status = 200, payload = RegionBody 1 [clearedPixel]\<rparr>
   \<and> length [clearedPixel] \<le> nat 2 * nat 1"
proof -
  note claim = region_is_row_major_dense_on_ledger_sparse_on_backend
    [where st = placedMegaplace and startPx = 10 and startPy = 20 and width = 2 and height = 1
       and pStartX = "''4''" and pStartY = "''5''" and pWidth = "''2''" and pHeight = "''1''"
       and sx = 4 and sy = 5 and w = 2 and h = 1 and allPixels = exampleLookup]
  have inside: "unat (10 :: uint256) < 1048576 \<and> unat (20 :: uint256) < 1048576
      \<and> unat (10 :: uint256) + unat (2 :: uint256) \<le> 1048576
      \<and> unat (20 :: uint256) + unat (1 :: uint256) \<le> 1048576
      \<and> 0 < unat (2 :: uint256) \<and> 0 < unat (1 :: uint256)"
    by simp
  from claim [THEN conjunct1, rule_format, OF inside]
  obtain colors where "getRegion placedMegaplace 10 20 2 1 = Inr colors"
    and "length colors = unat (2 :: uint256) * unat (1 :: uint256)"
    by blast
  with getRegion_example
  have ledger: "length [0x010101, 0 :: 32 word] = unat (2 :: uint256) * unat (1 :: uint256)"
    by simp
  have parsed: "parseInt ''4'' = Some 4" "parseInt ''5'' = Some 5"
    "parseInt ''2'' = Some 2" "parseInt ''1'' = Some 1"
    by (simp_all add: parseInt_eval)
  then have request: "parseInt ''4'' = Some 4 \<and> (0 :: int) \<le> 4 \<and> (4 :: int) < 1048576
      \<and> parseInt ''5'' = Some 5 \<and> (0 :: int) \<le> 5 \<and> (5 :: int) < 1048576
      \<and> parseInt ''2'' = Some 2 \<and> parseInt ''1'' = Some 1 \<and> (2 :: int) \<le> 1000 \<and> (1 :: int) \<le> 1000"
    by simp
  from claim [THEN conjunct2, rule_format, OF request] legacy_region_example
  have "[clearedPixel] = List.map_filter (\<lambda>(x, y). exampleLookup x y) (rowMajor 4 5 2 1)"
    and "length (List.map_filter (\<lambda>(x, y). exampleLookup x y) (rowMajor 4 5 2 1)) \<le> nat 2 * nat 1"
    by simp_all
  then have backend: "length [clearedPixel] \<le> nat 2 * nat 1"
    by simp
  from getRegion_example ledger parsed legacy_region_example backend show ?thesis
    by simp
qed

text \<open>
  Claim C2 as stated fails on the inline region handler: for the rectangle
  \<open>(0, 0, 1, 1)\<close> and a Cache without records it returns no entry, not \<open>1 * 1\<close> entries
  with a default colour and placer.
\<close>

theorem region_of_empty_cache_counterexample:
  "parseInt ''0'' = Some 0 \<and> parseInt ''1'' = Some 1
   \<and> legacyGetRegionHandler (Returned emptyLookup) ''0'' ''0'' ''1'' ''1'' =
       \<lparr>status = 200, payload = RegionBody 0 []\<rparr>
   \<and> length ([] :: PixelData list) \<noteq> 1 * 1"
  by (simp add: legacyGetRegionHandler_def Let_def isNaN_Number_of parseInt_eval
                regionRows.simps regionRow.simps emptyLookup_def)

end
